theory Spec2Isabelle
  imports Complex_Main "HOL-Library.Log_Nat"
begin

section \<open>The 3D printing analytics server and its client mirror\<close>

text \<open>
  The development embeds the Express handlers of \<^verbatim>\<open>server/server-mongodb.js\<close> and the
  reconciliation sweep of \<^verbatim>\<open>client/js/app-fixed.js\<close>. A handler is a function from the
  request (and the database state, where it has one) to a response (and the new state). The
  two rate limiters are not part of the model: a request here is one that the limiters let
  through to the route. The database is taken to be reachable and \<^verbatim>\<open>bcrypt.compare\<close> not to
  throw: the \<^verbatim>\<open>catch\<close> branches that are modelled are the ones a request can cause (a
  value that cannot be cast, a document that does not validate, a query the store rejects).
  Texts are ASCII. Clock readings are milliseconds; a handler reads the clock once.
\<close>

subsection \<open>JavaScript numbers\<close>

text \<open>
  A JavaScript number is a double: a finite number, \<^verbatim>\<open>NaN\<close> or an infinity. A finite double
  is written as the rational it denotes (negative zero is not told apart from zero), and
  an arithmetic operator computes the exact result and rounds it to the nearest double,
  ties to the even significand, as IEEE 754 prescribes: \<open>to_double\<close>. The unit in the last
  place of a number from \<open>2 powi e\<close> to below \<open>2 powi (e + 1)\<close> is \<open>2 powi (e - 52)\<close>, with
  the subnormal numbers sharing the unit of the lowest binade, \<open>e = - 1022\<close>; a result that
  rounds to \<open>2 ^ 1024\<close> or more overflows to an infinity.
\<close>

datatype jsnum = Num rat | NaN | PosInf | NegInf

definition round_half_even :: "rat \<Rightarrow> int" where
  "round_half_even q =
     (let f = \<lfloor>q\<rfloor>; r = q - of_int f
      in if r < 1 / 2 then f else if 1 / 2 < r then f + 1 else if even f then f else f + 1)"

definition binade :: "rat \<Rightarrow> int" where
  \<comment> \<open>of a positive number: the \<open>e\<close> with \<open>2 powi e \<le> q < 2 powi (e + 1)\<close>\<close>
  "binade q =
     (let d = bitlen (fst (quotient_of q)) - bitlen (snd (quotient_of q))
      in if 2 powi d \<le> q then d else d - 1)"

definition to_double :: "rat \<Rightarrow> jsnum" where
  "to_double q =
     (if q = 0 then Num 0
      else let u = 2 powi (max (binade \<bar>q\<bar>) (- 1022) - 52);
               r = of_int (round_half_even (\<bar>q\<bar> / u)) * u
           in if 2 ^ 1024 \<le> r then (if 0 < q then PosInf else NegInf) else Num (sgn q * r))"

fun js_sub :: "jsnum \<Rightarrow> jsnum \<Rightarrow> jsnum" where
  "js_sub (Num a) (Num b) = to_double (a - b)"
| "js_sub NaN _ = NaN"
| "js_sub _ NaN = NaN"
| "js_sub PosInf PosInf = NaN"
| "js_sub NegInf NegInf = NaN"
| "js_sub PosInf _ = PosInf"
| "js_sub NegInf _ = NegInf"
| "js_sub (Num a) PosInf = NegInf"
| "js_sub (Num a) NegInf = PosInf"

fun js_mul :: "jsnum \<Rightarrow> jsnum \<Rightarrow> jsnum" where
  "js_mul (Num a) (Num b) = to_double (a * b)"
| "js_mul NaN _ = NaN"
| "js_mul _ NaN = NaN"
| "js_mul PosInf (Num b) = (if b = 0 then NaN else if 0 < b then PosInf else NegInf)"
| "js_mul NegInf (Num b) = (if b = 0 then NaN else if 0 < b then NegInf else PosInf)"
| "js_mul (Num a) PosInf = (if a = 0 then NaN else if 0 < a then PosInf else NegInf)"
| "js_mul (Num a) NegInf = (if a = 0 then NaN else if 0 < a then NegInf else PosInf)"
| "js_mul PosInf PosInf = PosInf"
| "js_mul NegInf NegInf = PosInf"
| "js_mul PosInf NegInf = NegInf"
| "js_mul NegInf PosInf = NegInf"

fun js_div :: "jsnum \<Rightarrow> jsnum \<Rightarrow> jsnum" where
  "js_div (Num a) (Num b) =
     (if b = 0 then (if a = 0 then NaN else if 0 < a then PosInf else NegInf)
      else to_double (a / b))"
| "js_div NaN _ = NaN"
| "js_div _ NaN = NaN"
| "js_div (Num a) PosInf = Num 0"
| "js_div (Num a) NegInf = Num 0"
| "js_div PosInf (Num b) = (if 0 \<le> b then PosInf else NegInf)"
| "js_div NegInf (Num b) = (if 0 \<le> b then NegInf else PosInf)"
| "js_div _ _ = NaN"

fun math_ceil :: "jsnum \<Rightarrow> jsnum" where
  "math_ceil (Num a) = Num (of_int \<lceil>a\<rceil>)"
| "math_ceil x = x"

subsection \<open>Responses\<close>

text \<open>
  Every handler answers \<^verbatim>\<open>res.status(c).json({success: true, ...})\<close> or
  \<^verbatim>\<open>res.status(c).json({success: false, error: e, details: ds})\<close>. \<open>Success c d\<close> is the
  first with payload \<open>d\<close>, \<open>Failure c e ds\<close> the second (\<open>ds\<close> is empty where the handler
  sends no \<^verbatim>\<open>details\<close>).
\<close>

datatype 'a response = Success nat 'a | Failure nat string "string list"

fun status_of :: "'a response \<Rightarrow> nat" where
  "status_of (Success c _) = c"
| "status_of (Failure c _ _) = c"

subsection \<open>Credentials\<close>

text \<open>
  \<^verbatim>\<open>jsonwebtoken\<close> is a library; its contract is modelled. A token carries the payload the
  handler signs plus the issue and expiry instants the library adds, both in whole seconds.
  A text that is presented as a token is a token signed with some key, a token with no
  signature, or some other text. A signature verifies exactly when the key is the
  verifier's.
\<close>

record claims =
  role :: string
  timestamp :: nat
  iat :: nat
  exp :: nat

datatype credential = Garbage string | Unsigned claims | Signed string claims

datatype jwt_error = JsonWebTokenError | TokenExpiredError

definition jwt_sign :: "string \<Rightarrow> nat \<Rightarrow> string \<Rightarrow> nat \<Rightarrow> nat \<Rightarrow> credential" where
  \<comment> \<open>\<^verbatim>\<open>jwt.sign({role, timestamp}, key, {expiresIn})\<close> at clock \<open>now\<close> (milliseconds),
      \<open>expiresIn\<close> in seconds\<close>
  "jwt_sign r ts key expiresIn now =
     Signed key \<lparr>role = r, timestamp = ts, iat = now div 1000, exp = now div 1000 + expiresIn\<rparr>"

fun jwt_verify :: "credential \<Rightarrow> string \<Rightarrow> nat \<Rightarrow> jwt_error + claims" where
  "jwt_verify (Garbage s) key now = Inl JsonWebTokenError"
| "jwt_verify (Unsigned c) key now = Inl JsonWebTokenError"
| "jwt_verify (Signed k c) key now =
     (if k \<noteq> key then Inl JsonWebTokenError
      else if exp c \<le> now div 1000 then Inl TokenExpiredError
      else Inr c)"

text \<open>
  The \<^verbatim>\<open>authorization\<close> header, when present, is given as its pieces between single
  spaces (\<^verbatim>\<open>authHeader.split(' ')\<close>): \<^verbatim>\<open>Bearer <token>\<close> is
  \<open>[Garbage ''Bearer'', token]\<close>.
\<close>

type_synonym auth_header = "credential list option"

definition JWT_EXPIRES_IN :: nat where
  \<comment> \<open>\<^verbatim>\<open>expiresIn: '1h'\<close>, in seconds\<close>
  "JWT_EXPIRES_IN = 3600"

fun falsy_token :: "credential \<Rightarrow> bool" where
  "falsy_token (Garbage s) = (s = [])"
| "falsy_token _ = False"

definition authenticateToken :: "string \<Rightarrow> nat \<Rightarrow> auth_header \<Rightarrow> 'a response + claims" where
  "authenticateToken secret now authHeader =
     (case authHeader of
        None \<Rightarrow> Inl (Failure 401 ''Access token required'' [])
      | Some parts \<Rightarrow>
          (if length parts < 2 \<or> falsy_token (parts ! 1)
           then Inl (Failure 401 ''Access token required'' [])
           else (case jwt_verify (parts ! 1) secret now of
                   Inl e \<Rightarrow> Inl (Failure 401 ''Invalid or expired token'' [])
                 | Inr decoded \<Rightarrow> Inr decoded)))"

subsection \<open>The server's environment\<close>

text \<open>
  What the process reads from its environment and from libraries whose results the handlers
  only branch on: the signing key \<^verbatim>\<open>JWT_SECRET\<close>, and
  \<^verbatim>\<open>bcrypt.compare(password, ADMIN_PASSWORD_HASH)\<close> as a predicate on the submitted
  password; the e-mail tests of \<^verbatim>\<open>validator.js\<close> and of the feedback schema's
  \<^verbatim>\<open>match\<close> pattern are further below.
\<close>

record server_env =
  JWT_SECRET :: string
  bcrypt_compare :: "string \<Rightarrow> bool"
  isEmail :: "string \<Rightarrow> bool"
  normalizeEmail :: "string \<Rightarrow> string"
  email_pattern :: "string \<Rightarrow> bool"

subsection \<open>Login and verify\<close>

record auth_log =
  ip :: string
  userAgent :: "string option"
  action :: string
  success :: bool
  logged_at :: nat

record login_request =
  password :: "string option"
  remote_ip :: string
  user_agent :: "string option"

record login_reply =
  token :: credential
  expiresAt :: nat

definition logAuthAttempt :: "nat \<Rightarrow> login_request \<Rightarrow> string \<Rightarrow> bool \<Rightarrow> auth_log list \<Rightarrow> auth_log list" where
  "logAuthAttempt now req act ok logs =
     logs @ [\<lparr>ip = remote_ip req, userAgent = user_agent req, action = act, success = ok,
              logged_at = now\<rparr>]"

definition post_auth_login ::
  "server_env \<Rightarrow> nat \<Rightarrow> auth_log list \<Rightarrow> login_request \<Rightarrow> login_reply response \<times> auth_log list" where
  \<comment> \<open>\<^verbatim>\<open>!password\<close> holds for a missing password and for the empty string\<close>
  "post_auth_login env now logs req =
     (case password req of
        None \<Rightarrow> (Failure 400 ''Password is required'' [], logAuthAttempt now req ''login'' False logs)
      | Some p \<Rightarrow>
          if p = [] then
            (Failure 400 ''Password is required'' [], logAuthAttempt now req ''login'' False logs)
          else if bcrypt_compare env p then
            (Success 200
               \<lparr>token = jwt_sign ''admin'' now (JWT_SECRET env) JWT_EXPIRES_IN now,
                expiresAt = now + 3600000\<rparr>,
             logAuthAttempt now req ''login'' True logs)
          else
            (Failure 401 ''Invalid credentials'' [], logAuthAttempt now req ''login'' False logs))"

definition post_auth_verify :: "server_env \<Rightarrow> nat \<Rightarrow> auth_header \<Rightarrow> claims response" where
  "post_auth_verify env now authHeader =
     (case authenticateToken (JWT_SECRET env) now authHeader of
        Inl denied \<Rightarrow> denied
      | Inr user \<Rightarrow> Success 200 user)"

definition bearer :: "credential \<Rightarrow> auth_header" where
  \<comment> \<open>the header the client sends: \<^verbatim>\<open>Authorization: Bearer <token>\<close>\<close>
  "bearer tok = Some [Garbage ''Bearer'', tok]"

subsection \<open>Request bodies\<close>

text \<open>
  A JSON body gives a path no value (\<open>Absent\<close>), \<^verbatim>\<open>null\<close> or a value. Bodies are typed as
  the client builds them: a path that the schema declares a String carries a text, a Number
  path a number, a Date path a date text; the counters of the nested \<^verbatim>\<open>quantities\<close> object
  are the paths \<^verbatim>\<open>quantities.bng\<close> and so on.

  Three library functions read a date text, and they do not agree, so a date text is given
  by what each of them makes of it: whether the validator's \<^verbatim>\<open>isISO8601\<close> accepts it, the
  instant (milliseconds) \<^verbatim>\<open>Date.parse\<close> reads in it, and the instant Mongoose's Date cast reads
  in it; \<open>None\<close> is \<^verbatim>\<open>NaN\<close>, respectively a \<^verbatim>\<open>CastError\<close>. So \<^verbatim>\<open>2024-03-05\<close> is
  \<open>DateText True (Some t) (Some t)\<close>, the ISO week date \<^verbatim>\<open>2024-W05-2\<close> is
  \<open>DateText True None None\<close>, \<^verbatim>\<open>March 5, 2024\<close> is \<open>DateText False (Some t) (Some t)\<close> and
  \<^verbatim>\<open>soon\<close> is \<open>DateText False None None\<close>. The \<^verbatim>\<open>Date\<close> object of an instant \<open>t\<close>, which the
  sanitizer \<^verbatim>\<open>toDate\<close> leaves in the body, is \<open>DateText True (Some t) (Some t)\<close>. Instants
  are counted from 1970 on; the texts of earlier dates are not modelled.
\<close>

datatype 'a field = Absent | Null | Val 'a

datatype date_text = DateText (is_iso: bool) (parses_to: "nat option") (casts_to: "nat option")

record body =
  texts :: "string \<Rightarrow> string field"
  numbers :: "string \<Rightarrow> rat field"
  dates :: "string \<Rightarrow> date_text field"

fun to_string :: "string field \<Rightarrow> string" where
  \<comment> \<open>the text \<^verbatim>\<open>express-validator\<close> tests: empty for a missing or null value\<close>
  "to_string (Val s) = s"
| "to_string _ = []"

subsection \<open>The validation chains of \<^verbatim>\<open>express-validator\<close>\<close>

definition is_space :: "char \<Rightarrow> bool" where
  "is_space c = (c \<in> set [CHR '' '', CHR 0x09, CHR 0x0A, CHR 0x0B, CHR 0x0C, CHR 0x0D])"

definition trim :: "string \<Rightarrow> string" where
  "trim s = rev (dropWhile is_space (rev (dropWhile is_space s)))"

definition escape_char :: "char \<Rightarrow> string" where
  "escape_char c =
     (if c = CHR ''&'' then ''&amp;''
      else if c = CHR 0x22 then ''&quot;''
      else if c = CHR 0x27 then ''&#x27;''
      else if c = CHR ''<'' then ''&lt;''
      else if c = CHR ''>'' then ''&gt;''
      else if c = CHR ''/'' then ''&#x2F;''
      else if c = CHR 0x5C then ''&#x5C;''
      else if c = CHR 0x60 then ''&#96;''
      else [c])"

definition escape :: "string \<Rightarrow> string" where
  "escape s = concat (map escape_char s)"

definition is_integer :: "rat \<Rightarrow> bool" where
  "is_integer q = (of_int \<lfloor>q\<rfloor> = q)"

definition prints_as_digits :: "rat \<Rightarrow> bool" where
  \<comment> \<open>\<^verbatim>\<open>String(q)\<close> is an optional sign and digits only: an integer below \<open>10^21\<close> in
      size (from there on JavaScript prints an exponent)\<close>
  "prints_as_digits q = (is_integer q \<and> \<bar>q\<bar> < 10 ^ 21)"

fun isInt :: "int option \<Rightarrow> int option \<Rightarrow> rat field \<Rightarrow> bool" where
  "isInt mn mx (Val q) =
     (prints_as_digits q
      \<and> (case mn of None \<Rightarrow> True | Some a \<Rightarrow> of_int a \<le> q)
      \<and> (case mx of None \<Rightarrow> True | Some b \<Rightarrow> q \<le> of_int b))"
| "isInt mn mx _ = False"

fun isFloat :: "rat \<Rightarrow> rat field \<Rightarrow> bool" where
  "isFloat mn (Val q) = (mn \<le> q)"
| "isFloat mn _ = False"

fun isISO8601 :: "date_text field \<Rightarrow> bool" where
  \<comment> \<open>a missing or null value is tested as the empty text, which is no ISO 8601 date\<close>
  "isISO8601 (Val t) = is_iso t"
| "isISO8601 _ = False"

fun toDate :: "date_text field \<Rightarrow> date_text field" where
  \<comment> \<open>\<^verbatim>\<open>date = Date.parse(date); return !isNaN(date) ? new Date(date) : null\<close>; the
      sanitizer runs on a text that \<^verbatim>\<open>isISO8601\<close> accepted\<close>
  "toDate (Val t) =
     (case parses_to t of None \<Rightarrow> Null | Some ms \<Rightarrow> Val (DateText True (Some ms) (Some ms)))"
| "toDate v = Null"

datatype chain =
    TrimLengthEscape nat nat
  | IsFloatMin rat
  | IsIntMin int
  | IsIntRange int int
  | IsIn "string list"
  | IsEmailNormalize
  | IsISO8601ToDate

fun chain_passes :: "server_env \<Rightarrow> body \<Rightarrow> string \<Rightarrow> chain \<Rightarrow> bool" where
  "chain_passes env b p (TrimLengthEscape mn mx) =
     (mn \<le> length (trim (to_string (texts b p))) \<and> length (trim (to_string (texts b p))) \<le> mx)"
| "chain_passes env b p (IsFloatMin mn) = isFloat mn (numbers b p)"
| "chain_passes env b p (IsIntMin mn) = isInt (Some mn) None (numbers b p)"
| "chain_passes env b p (IsIntRange mn mx) = isInt (Some mn) (Some mx) (numbers b p)"
| "chain_passes env b p (IsIn allowed) = (to_string (texts b p) \<in> set allowed)"
| "chain_passes env b p IsEmailNormalize = isEmail env (to_string (texts b p))"
| "chain_passes env b p IsISO8601ToDate = isISO8601 (dates b p)"

fun sanitize :: "server_env \<Rightarrow> body \<Rightarrow> string \<Rightarrow> chain \<Rightarrow> body" where
  \<comment> \<open>what the chain's sanitizers leave in \<^verbatim>\<open>req.body\<close>\<close>
  "sanitize env b p (TrimLengthEscape mn mx) =
     b\<lparr>texts := (texts b)(p := Val (escape (trim (to_string (texts b p)))))\<rparr>"
| "sanitize env b p IsEmailNormalize =
     b\<lparr>texts := (texts b)(p := Val (normalizeEmail env (to_string (texts b p))))\<rparr>"
| "sanitize env b p IsISO8601ToDate = b\<lparr>dates := (dates b)(p := toDate (dates b p))\<rparr>"
| "sanitize env b p _ = b"

text \<open>
  \<open>validationResult\<close> runs the chains in order and returns the paths whose chain failed
  (\<^verbatim>\<open>errors.array()\<close>) with the sanitised body. A handler reads the body only when no chain
  failed, so the sanitised value of a failing chain is never observed; the model leaves a
  failing path as it was.
\<close>

fun validationResult :: "server_env \<Rightarrow> (string \<times> chain) list \<Rightarrow> body \<Rightarrow> string list \<times> body" where
  "validationResult env [] b = ([], b)"
| "validationResult env ((p, c) # cs) b =
     (if chain_passes env b p c
      then validationResult env cs (sanitize env b p c)
      else (case validationResult env cs b of (errs, b') \<Rightarrow> (p # errs, b')))"

definition validateRecord :: "(string \<times> chain) list" where
  "validateRecord =
     [(''projectName'', TrimLengthEscape 1 100),
      (''partName'', TrimLengthEscape 1 100),
      (''partType'', TrimLengthEscape 1 50),
      (''materialUsed'', TrimLengthEscape 1 50),
      (''machineName'', TrimLengthEscape 1 50),
      (''printingTimeMins'', IsFloatMin 0),
      (''totalQuantity'', IsIntMin 1),
      (''status'', IsIn [''pending'', ''in-progress'', ''completed'', ''cancelled'']),
      (''category'', IsIn [''prototype'', ''production'', ''research'', ''maintenance'', ''other''])]"

definition validateFeedback :: "(string \<times> chain) list" where
  "validateFeedback =
     [(''name'', TrimLengthEscape 1 100),
      (''email'', IsEmailNormalize),
      (''subject'', TrimLengthEscape 1 200),
      (''message'', TrimLengthEscape 1 1000),
      (''rating'', IsIntRange 1 5),
      (''category'', IsIn [''general'', ''technical'', ''complaint'', ''suggestion'', ''bug-report''])]"

definition validateProject :: "(string \<times> chain) list" where
  "validateProject =
     [(''title'', TrimLengthEscape 1 200),
      (''description'', TrimLengthEscape 1 1000),
      (''priority'', IsIn [''low'', ''medium'', ''high'', ''critical'']),
      (''location'', TrimLengthEscape 1 100),
      (''dueDate'', IsISO8601ToDate)]"

subsection \<open>Mongoose schemas and documents\<close>

text \<open>
  A schema is the table of its paths, each with its type and its options, as the source
  writes them. The \<^verbatim>\<open>tags\<close> array of the project schema is left out: bodies and documents
  hold scalars.
\<close>

datatype kind = KString | KNumber | KDate

datatype rule =
    Required
  | MaxLength nat
  | Min rat
  | Max rat
  | Enum "string list"
  | Match
  | DefaultNumber rat
  | DefaultString string
  | DefaultNow

type_synonym schema = "(string \<times> kind \<times> rule list) list"

definition recordSchema :: schema where
  "recordSchema =
     [(''date'', KDate, [Required]),
      (''projectName'', KString, [Required, MaxLength 100]),
      (''partType'', KString, [Required, MaxLength 50]),
      (''partSize'', KString, [Required, MaxLength 50]),
      (''partName'', KString, [Required, MaxLength 100]),
      (''application'', KString, [Required, MaxLength 200]),
      (''sharepointLink'', KString, [MaxLength 500]),
      (''materialUsed'', KString, [Required, MaxLength 50]),
      (''machineName'', KString, [Required, MaxLength 50]),
      (''printingTimeMins'', KNumber, [Required, Min 0]),
      (''printingTimeHrs'', KNumber, [Required, Min 0]),
      (''printPrice'', KNumber, [Required, Min 0]),
      (''electricityCost'', KNumber, [Required, Min 0]),
      (''printCost'', KNumber, [Required, Min 0]),
      (''oemCost'', KNumber, [Required, Min 0]),
      (''savingsPerProduct'', KNumber, [Required]),
      (''status'', KString, [Required, Enum [''pending'', ''in-progress'', ''completed'', ''cancelled'']]),
      (''category'', KString,
         [Required, Enum [''prototype'', ''production'', ''research'', ''maintenance'', ''other'']]),
      (''quantities.bng'', KNumber, [DefaultNumber 0, Min 0]),
      (''quantities.sampling'', KNumber, [DefaultNumber 0, Min 0]),
      (''quantities.rcc'', KNumber, [DefaultNumber 0, Min 0]),
      (''quantities.rd'', KNumber, [DefaultNumber 0, Min 0]),
      (''quantities.kaa'', KNumber, [DefaultNumber 0, Min 0]),
      (''quantities.bom'', KNumber, [DefaultNumber 0, Min 0]),
      (''quantities.other'', KNumber, [DefaultNumber 0, Min 0]),
      (''totalQuantity'', KNumber, [Required, Min 1]),
      (''totalSavings'', KNumber, [Required]),
      (''image'', KString, []),
      (''createdAt'', KDate, [DefaultNow]),
      (''updatedAt'', KDate, [DefaultNow])]"

definition feedbackSchema :: schema where
  "feedbackSchema =
     [(''name'', KString, [Required, MaxLength 100]),
      (''partName'', KString, [MaxLength 100]),
      (''email'', KString, [Required, MaxLength 100, Match]),
      (''location'', KString, [Required, MaxLength 100]),
      (''category'', KString,
         [Required, Enum [''general'', ''technical'', ''complaint'', ''suggestion'', ''bug-report'']]),
      (''subject'', KString, [Required, MaxLength 200]),
      (''message'', KString, [Required, MaxLength 1000]),
      (''rating'', KNumber, [Required, Min 1, Max 5]),
      (''image'', KString, []),
      (''status'', KString, [DefaultString ''new'', Enum [''new'', ''in-review'', ''resolved'', ''closed'']]),
      (''createdAt'', KDate, [DefaultNow]),
      (''updatedAt'', KDate, [DefaultNow])]"

definition projectSchema :: schema where
  "projectSchema =
     [(''title'', KString, [Required, MaxLength 200]),
      (''description'', KString, [Required, MaxLength 1000]),
      (''priority'', KString, [Required, Enum [''low'', ''medium'', ''high'', ''critical'']]),
      (''location'', KString, [Required, MaxLength 100]),
      (''dueDate'', KDate, [Required]),
      (''image'', KString, []),
      (''status'', KString,
         [DefaultString ''pending'',
          Enum [''pending'', ''in-progress'', ''completed'', ''cancelled'', ''on-hold'']]),
      (''assignedTo'', KString, [MaxLength 100]),
      (''createdAt'', KDate, [DefaultNow]),
      (''updatedAt'', KDate, [DefaultNow])]"

text \<open>
  A stored document: its \<^verbatim>\<open>_id\<close> and, per type, the value at each path (\<open>None\<close>: the
  document has no value there).
\<close>

record doc =
  oid :: nat
  strings :: "string \<Rightarrow> string option"
  nums :: "string \<Rightarrow> rat option"
  instants :: "string \<Rightarrow> nat option"

definition blank_doc :: "nat \<Rightarrow> doc" where
  "blank_doc i = \<lparr>oid = i, strings = (\<lambda>p. None), nums = (\<lambda>p. None), instants = (\<lambda>p. None)\<rparr>"

subsection \<open>Building, validating and updating documents\<close>

definition default_string :: "rule list \<Rightarrow> string option" where
  "default_string rs = (case [d. DefaultString d \<leftarrow> rs] of [] \<Rightarrow> None | d # _ \<Rightarrow> Some d)"

definition default_number :: "rule list \<Rightarrow> rat option" where
  "default_number rs = (case [d. DefaultNumber d \<leftarrow> rs] of [] \<Rightarrow> None | d # _ \<Rightarrow> Some d)"

definition default_instant :: "nat \<Rightarrow> rule list \<Rightarrow> nat option" where
  "default_instant now rs = (if DefaultNow \<in> set rs then Some now else None)"

fun cast_date :: "date_text \<Rightarrow> nat option" where
  \<comment> \<open>Mongoose's cast of a value to a Date path\<close>
  "cast_date t = casts_to t"

fun cast_fails :: "body \<Rightarrow> string \<times> kind \<times> rule list \<Rightarrow> bool" where
  \<comment> \<open>the value at the path cannot be cast to the path's type (a \<^verbatim>\<open>CastError\<close>)\<close>
  "cast_fails b (p, KDate, rs) = (case dates b p of Val t \<Rightarrow> cast_date t = None | _ \<Rightarrow> False)"
| "cast_fails b (p, k, rs) = False"

fun construct_path :: "nat \<Rightarrow> body \<Rightarrow> string \<times> kind \<times> rule list \<Rightarrow> doc \<Rightarrow> doc" where
  "construct_path now b (p, KString, rs) d =
     d\<lparr>strings := (strings d)(p :=
        (case texts b p of Val s \<Rightarrow> Some s | Null \<Rightarrow> None | Absent \<Rightarrow> default_string rs))\<rparr>"
| "construct_path now b (p, KNumber, rs) d =
     d\<lparr>nums := (nums d)(p :=
        (case numbers b p of Val q \<Rightarrow> Some q | Null \<Rightarrow> None | Absent \<Rightarrow> default_number rs))\<rparr>"
| "construct_path now b (p, KDate, rs) d =
     d\<lparr>instants := (instants d)(p :=
        (case dates b p of Val t \<Rightarrow> cast_date t | Null \<Rightarrow> None | Absent \<Rightarrow> default_instant now rs))\<rparr>"

definition construct :: "nat \<Rightarrow> schema \<Rightarrow> body \<Rightarrow> nat \<Rightarrow> doc" where
  \<comment> \<open>\<^verbatim>\<open>new Model(req.body)\<close>: schema paths only, defaults where the body has no value\<close>
  "construct now sch b i = fold (construct_path now b) sch (blank_doc i)"

fun string_rule_ok :: "server_env \<Rightarrow> string option \<Rightarrow> rule \<Rightarrow> bool" where
  "string_rule_ok env v Required = (case v of None \<Rightarrow> False | Some s \<Rightarrow> s \<noteq> [])"
| "string_rule_ok env v (MaxLength n) = (case v of None \<Rightarrow> True | Some s \<Rightarrow> length s \<le> n)"
| "string_rule_ok env v (Enum allowed) = (case v of None \<Rightarrow> True | Some s \<Rightarrow> s \<in> set allowed)"
| "string_rule_ok env v Match =
     (case v of None \<Rightarrow> True | Some s \<Rightarrow> if s = [] then True else email_pattern env s)"
| "string_rule_ok env v _ = True"

fun number_rule_ok :: "rat option \<Rightarrow> rule \<Rightarrow> bool" where
  "number_rule_ok v Required = (v \<noteq> None)"
| "number_rule_ok v (Min m) = (case v of None \<Rightarrow> True | Some q \<Rightarrow> m \<le> q)"
| "number_rule_ok v (Max m) = (case v of None \<Rightarrow> True | Some q \<Rightarrow> q \<le> m)"
| "number_rule_ok v _ = True"

fun instant_rule_ok :: "nat option \<Rightarrow> rule \<Rightarrow> bool" where
  "instant_rule_ok v Required = (v \<noteq> None)"
| "instant_rule_ok v _ = True"

fun path_valid :: "server_env \<Rightarrow> doc \<Rightarrow> string \<times> kind \<times> rule list \<Rightarrow> bool" where
  "path_valid env d (p, KString, rs) = list_all (string_rule_ok env (strings d p)) rs"
| "path_valid env d (p, KNumber, rs) = list_all (number_rule_ok (nums d p)) rs"
| "path_valid env d (p, KDate, rs) = list_all (instant_rule_ok (instants d p)) rs"

definition saves :: "server_env \<Rightarrow> schema \<Rightarrow> body \<Rightarrow> doc \<Rightarrow> bool" where
  \<comment> \<open>\<^verbatim>\<open>doc.save()\<close> does not throw: every value was cast and every path validates\<close>
  "saves env sch b d = (\<not> list_ex (cast_fails b) sch \<and> list_all (path_valid env d) sch)"

fun given :: "body \<Rightarrow> string \<times> kind \<times> rule list \<Rightarrow> bool" where
  "given b (p, KString, rs) = (texts b p \<noteq> Absent)"
| "given b (p, KNumber, rs) = (numbers b p \<noteq> Absent)"
| "given b (p, KDate, rs) = (dates b p \<noteq> Absent)"

definition parent :: "string \<Rightarrow> string" where
  "parent p = (if CHR ''.'' \<in> set p then takeWhile (\<lambda>c. c \<noteq> CHR ''.'') p else [])"

definition object_replaced :: "schema \<Rightarrow> body \<Rightarrow> string \<Rightarrow> bool" where
  \<comment> \<open>the body carries the nested object the path lies in: \<^verbatim>\<open>$set\<close> replaces it whole\<close>
  "object_replaced sch b p =
     (CHR ''.'' \<in> set p \<and> list_ex (\<lambda>e. parent (fst e) = parent p \<and> given b e) sch)"

fun update_path :: "schema \<Rightarrow> body \<Rightarrow> string \<times> kind \<times> rule list \<Rightarrow> doc \<Rightarrow> doc" where
  "update_path sch b (p, KString, rs) d =
     d\<lparr>strings := (strings d)(p :=
        (case texts b p of Val s \<Rightarrow> Some s | Null \<Rightarrow> None
         | Absent \<Rightarrow> if object_replaced sch b p then default_string rs else strings d p))\<rparr>"
| "update_path sch b (p, KNumber, rs) d =
     d\<lparr>nums := (nums d)(p :=
        (case numbers b p of Val q \<Rightarrow> Some q | Null \<Rightarrow> None
         | Absent \<Rightarrow> if object_replaced sch b p then default_number rs else nums d p))\<rparr>"
| "update_path sch b (p, KDate, rs) d =
     d\<lparr>instants := (instants d)(p :=
        (case dates b p of Val t \<Rightarrow> cast_date t | Null \<Rightarrow> None | Absent \<Rightarrow> instants d p))\<rparr>"

definition apply_update :: "nat \<Rightarrow> schema \<Rightarrow> body \<Rightarrow> doc \<Rightarrow> doc" where
  \<comment> \<open>the update \<^verbatim>\<open>{ ...req.body, updatedAt: new Date() }\<close> applied to a document\<close>
  "apply_update now sch b d =
     (let d' = fold (update_path sch b) sch d
      in d'\<lparr>instants := (instants d')(''updatedAt'' := Some now)\<rparr>)"

fun update_path_valid :: "server_env \<Rightarrow> body \<Rightarrow> string \<times> kind \<times> rule list \<Rightarrow> bool" where
  \<comment> \<open>the update validators (\<^verbatim>\<open>runValidators\<close>) look at the paths the update sets\<close>
  "update_path_valid env b (p, KString, rs) =
     (case texts b p of Absent \<Rightarrow> True | Null \<Rightarrow> list_all (string_rule_ok env None) rs
      | Val s \<Rightarrow> list_all (string_rule_ok env (Some s)) rs)"
| "update_path_valid env b (p, KNumber, rs) =
     (case numbers b p of Absent \<Rightarrow> True | Null \<Rightarrow> list_all (number_rule_ok None) rs
      | Val q \<Rightarrow> list_all (number_rule_ok (Some q)) rs)"
| "update_path_valid env b (p, KDate, rs) =
     (case dates b p of Absent \<Rightarrow> True | Null \<Rightarrow> list_all (instant_rule_ok None) rs
      | Val t \<Rightarrow> list_all (instant_rule_ok (cast_date t)) rs)"

definition updates :: "server_env \<Rightarrow> schema \<Rightarrow> body \<Rightarrow> bool" where
  "updates env sch b = (\<not> list_ex (cast_fails b) sch \<and> list_all (update_path_valid env b) sch)"

text \<open>
  The \<^verbatim>\<open>:id\<close> of a path is the text of an ObjectId or a text that cannot be cast to one;
  on the latter \<^verbatim>\<open>findById...\<close> throws a \<^verbatim>\<open>CastError\<close> before it queries.
\<close>

datatype path_id = ObjectId nat | NotObjectId string

fun update_first :: "nat \<Rightarrow> (doc \<Rightarrow> doc) \<Rightarrow> doc list \<Rightarrow> doc list" where
  "update_first i f [] = []"
| "update_first i f (d # ds) = (if oid d = i then f d # ds else d # update_first i f ds)"

fun delete_first :: "nat \<Rightarrow> doc list \<Rightarrow> doc list" where
  "delete_first i [] = []"
| "delete_first i (d # ds) = (if oid d = i then ds else d # delete_first i ds)"

definition findById :: "nat \<Rightarrow> doc list \<Rightarrow> doc option" where
  "findById i ds = find (\<lambda>d. oid d = i) ds"

subsection \<open>The database and the write handlers\<close>

datatype jsvalue =
    JNull | JBool bool | JNumber rat | JString string
  | JArray "jsvalue list" | JObject "(string \<times> jsvalue) list"

record setting =
  skey :: string
  svalue :: jsvalue
  description :: "string option"
  changed_at :: nat

record database =
  records :: "doc list"
  feedback :: "doc list"
  projects :: "doc list"
  settings :: "setting list"
  next_oid :: nat

definition empty_database :: database where
  "empty_database = \<lparr>records = [], feedback = [], projects = [], settings = [], next_oid = 0\<rparr>"

definition post_records ::
  "server_env \<Rightarrow> nat \<Rightarrow> database \<Rightarrow> auth_header \<Rightarrow> body \<Rightarrow> doc response \<times> database" where
  "post_records env now db authHeader b =
     (case authenticateToken (JWT_SECRET env) now authHeader of
        Inl denied \<Rightarrow> (denied, db)
      | Inr user \<Rightarrow>
          (case validationResult env validateRecord b of
             (errors, b') \<Rightarrow>
               if errors \<noteq> [] then (Failure 400 ''Validation failed'' errors, db)
               else
                 let r = construct now recordSchema b' (next_oid db);
                     r = r\<lparr>instants := (instants r)(''updatedAt'' := Some now)\<rparr>
                 in if saves env recordSchema b' r
                    then (Success 201 r, db\<lparr>records := records db @ [r], next_oid := Suc (next_oid db)\<rparr>)
                    else (Failure 500 ''Failed to create record'' [], db)))"

definition put_records ::
  "server_env \<Rightarrow> nat \<Rightarrow> database \<Rightarrow> auth_header \<Rightarrow> path_id \<Rightarrow> body \<Rightarrow> doc response \<times> database" where
  "put_records env now db authHeader pid b =
     (case authenticateToken (JWT_SECRET env) now authHeader of
        Inl denied \<Rightarrow> (denied, db)
      | Inr user \<Rightarrow>
          (case validationResult env validateRecord b of
             (errors, b') \<Rightarrow>
               if errors \<noteq> [] then (Failure 400 ''Validation failed'' errors, db)
               else
                 (case pid of
                    NotObjectId s \<Rightarrow> (Failure 500 ''Failed to update record'' [], db)
                  | ObjectId i \<Rightarrow>
                      if \<not> updates env recordSchema b' then (Failure 500 ''Failed to update record'' [], db)
                      else
                        (case findById i (records db) of
                           None \<Rightarrow> (Failure 404 ''Record not found'' [], db)
                         | Some d \<Rightarrow>
                             (Success 200 (apply_update now recordSchema b' d),
                              db\<lparr>records := update_first i (apply_update now recordSchema b') (records db)\<rparr>)))))"

definition delete_records ::
  "server_env \<Rightarrow> nat \<Rightarrow> database \<Rightarrow> auth_header \<Rightarrow> path_id \<Rightarrow> unit response \<times> database" where
  "delete_records env now db authHeader pid =
     (case authenticateToken (JWT_SECRET env) now authHeader of
        Inl denied \<Rightarrow> (denied, db)
      | Inr user \<Rightarrow>
          (case pid of
             NotObjectId s \<Rightarrow> (Failure 500 ''Failed to delete record'' [], db)
           | ObjectId i \<Rightarrow>
               (case findById i (records db) of
                  None \<Rightarrow> (Failure 404 ''Record not found'' [], db)
                | Some d \<Rightarrow> (Success 200 (), db\<lparr>records := delete_first i (records db)\<rparr>))))"

definition post_feedback ::
  "server_env \<Rightarrow> nat \<Rightarrow> database \<Rightarrow> auth_header \<Rightarrow> body \<Rightarrow> doc response \<times> database" where
  \<comment> \<open>the route has no \<^verbatim>\<open>authenticateToken\<close>: the header is not looked at\<close>
  "post_feedback env now db authHeader b =
     (case validationResult env validateFeedback b of
        (errors, b') \<Rightarrow>
          if errors \<noteq> [] then (Failure 400 ''Validation failed'' errors, db)
          else
            let f = construct now feedbackSchema b' (next_oid db)
            in if saves env feedbackSchema b' f
               then (Success 201 f, db\<lparr>feedback := feedback db @ [f], next_oid := Suc (next_oid db)\<rparr>)
               else (Failure 500 ''Failed to submit feedback'' [], db))"

definition delete_feedback ::
  "server_env \<Rightarrow> nat \<Rightarrow> database \<Rightarrow> auth_header \<Rightarrow> path_id \<Rightarrow> unit response \<times> database" where
  "delete_feedback env now db authHeader pid =
     (case authenticateToken (JWT_SECRET env) now authHeader of
        Inl denied \<Rightarrow> (denied, db)
      | Inr user \<Rightarrow>
          (case pid of
             NotObjectId s \<Rightarrow> (Failure 500 ''Failed to delete feedback'' [], db)
           | ObjectId i \<Rightarrow>
               (case findById i (feedback db) of
                  None \<Rightarrow> (Failure 404 ''Feedback not found'' [], db)
                | Some d \<Rightarrow> (Success 200 (), db\<lparr>feedback := delete_first i (feedback db)\<rparr>))))"

definition post_projects ::
  "server_env \<Rightarrow> nat \<Rightarrow> database \<Rightarrow> auth_header \<Rightarrow> body \<Rightarrow> doc response \<times> database" where
  "post_projects env now db authHeader b =
     (case authenticateToken (JWT_SECRET env) now authHeader of
        Inl denied \<Rightarrow> (denied, db)
      | Inr user \<Rightarrow>
          (case validationResult env validateProject b of
             (errors, b') \<Rightarrow>
               if errors \<noteq> [] then (Failure 400 ''Validation failed'' errors, db)
               else
                 let pr = construct now projectSchema b' (next_oid db)
                 in if saves env projectSchema b' pr
                    then (Success 201 pr, db\<lparr>projects := projects db @ [pr], next_oid := Suc (next_oid db)\<rparr>)
                    else (Failure 500 ''Failed to create project'' [], db)))"

definition put_projects ::
  "server_env \<Rightarrow> nat \<Rightarrow> database \<Rightarrow> auth_header \<Rightarrow> path_id \<Rightarrow> body \<Rightarrow> doc response \<times> database" where
  "put_projects env now db authHeader pid b =
     (case authenticateToken (JWT_SECRET env) now authHeader of
        Inl denied \<Rightarrow> (denied, db)
      | Inr user \<Rightarrow>
          (case validationResult env validateProject b of
             (errors, b') \<Rightarrow>
               if errors \<noteq> [] then (Failure 400 ''Validation failed'' errors, db)
               else
                 (case pid of
                    NotObjectId s \<Rightarrow> (Failure 500 ''Failed to update project'' [], db)
                  | ObjectId i \<Rightarrow>
                      if \<not> updates env projectSchema b' then (Failure 500 ''Failed to update project'' [], db)
                      else
                        (case findById i (projects db) of
                           None \<Rightarrow> (Failure 404 ''Project not found'' [], db)
                         | Some d \<Rightarrow>
                             (Success 200 (apply_update now projectSchema b' d),
                              db\<lparr>projects := update_first i (apply_update now projectSchema b') (projects db)\<rparr>)))))"

definition delete_projects ::
  "server_env \<Rightarrow> nat \<Rightarrow> database \<Rightarrow> auth_header \<Rightarrow> path_id \<Rightarrow> unit response \<times> database" where
  "delete_projects env now db authHeader pid =
     (case authenticateToken (JWT_SECRET env) now authHeader of
        Inl denied \<Rightarrow> (denied, db)
      | Inr user \<Rightarrow>
          (case pid of
             NotObjectId s \<Rightarrow> (Failure 500 ''Failed to delete project'' [], db)
           | ObjectId i \<Rightarrow>
               (case findById i (projects db) of
                  None \<Rightarrow> (Failure 404 ''Project not found'' [], db)
                | Some d \<Rightarrow> (Success 200 (), db\<lparr>projects := delete_first i (projects db)\<rparr>))))"

subsection \<open>The list handlers\<close>

text \<open>
  The handlers read a \<^verbatim>\<open>page\<close> or \<^verbatim>\<open>limit\<close> query parameter in two ways that do not agree:
  the arithmetic (\<^verbatim>\<open>limit * 1\<close>, \<^verbatim>\<open>page - 1\<close>, \<^verbatim>\<open>total / limit\<close>) coerces the value with
  \<^verbatim>\<open>Number\<close>, the echo in the reply with \<^verbatim>\<open>parseInt\<close>. A parameter that is present (a text,
  or the array or object of a repeated or bracketed parameter) is therefore given by these
  two readings of it, each the double JavaScript computes:

    \<^item> \<^verbatim>\<open>10\<close> is \<open>Given (Num 10) (Num 10)\<close>;
    \<^item> \<^verbatim>\<open>10abc\<close> is \<open>Given NaN (Num 10)\<close>, and \<^verbatim>\<open>abc\<close> is \<open>Given NaN NaN\<close>;
    \<^item> the empty text is \<open>Given (Num 0) NaN\<close>;
    \<^item> \<^verbatim>\<open>2.5\<close> is \<open>Given (Num (5 / 2)) (Num 2)\<close>, and \<^verbatim>\<open>1e1\<close> is \<open>Given (Num 10) (Num 1)\<close>;
    \<^item> \<^verbatim>\<open>9007199254740993\<close> is \<open>Given (Num 9007199254740992) (Num 9007199254740992)\<close>, both
      readings rounded to the nearest double;
    \<^item> a text of 400 digits is \<open>Given PosInf PosInf\<close>.

  The destructuring default, a number, replaces a missing parameter only; \<^verbatim>\<open>parseInt\<close> of
  the defaults 1 and 100 is 1 and 100.
\<close>

datatype qparam = Missing | Given (as_number: jsnum) (as_int: jsnum)

fun to_number :: "rat \<Rightarrow> qparam \<Rightarrow> jsnum" where
  \<comment> \<open>the operand the arithmetic operators see\<close>
  "to_number dflt Missing = Num dflt"
| "to_number dflt (Given n i) = n"

fun parseInt :: "rat \<Rightarrow> qparam \<Rightarrow> jsnum" where
  "parseInt dflt Missing = Num dflt"
| "parseInt dflt (Given n i) = i"

record list_query =
  q_page :: qparam
  q_limit :: qparam
  q_sortBy :: "string option"
  q_sortOrder :: "string option"
  q_status :: "string option"
  q_priority :: "string option"

definition no_query :: list_query where
  "no_query = \<lparr>q_page = Missing, q_limit = Missing, q_sortBy = None, q_sortOrder = None,
               q_status = None, q_priority = None\<rparr>"

text \<open>
  The reply before it is serialised: \<^verbatim>\<open>JSON.stringify\<close> writes \<^verbatim>\<open>NaN\<close> and the infinities
  as \<^verbatim>\<open>null\<close>. The total is the count of the matching documents, written as the natural
  number it is; the count is a double as long as it is at most \<open>2 ^ 53\<close>.
\<close>

record pagination =
  page :: jsnum
  limit :: jsnum
  total :: nat
  pages :: jsnum

record listing =
  data :: "doc list"
  pagination :: pagination

text \<open>
  MongoDB is a library. Its sort is a parameter (\<open>sort_docs key direction\<close>), and so is what
  a query does whose \<^verbatim>\<open>limit\<close> or \<^verbatim>\<open>skip\<close> is no natural number (\<open>irregular\<close>: it throws
  with a message or returns documents). On natural numbers the cursor skips, then limits;
  a limit of zero is no limit.
\<close>

record engine =
  sort_docs :: "string \<Rightarrow> int \<Rightarrow> doc list \<Rightarrow> doc list"
  irregular :: "jsnum \<Rightarrow> jsnum \<Rightarrow> doc list \<Rightarrow> string + doc list"

fun is_natural :: "jsnum \<Rightarrow> bool" where
  "is_natural (Num q) = (is_integer q \<and> 0 \<le> q)"
| "is_natural _ = False"

fun natural_of :: "jsnum \<Rightarrow> nat" where
  "natural_of (Num q) = nat \<lfloor>q\<rfloor>"
| "natural_of _ = 0"

definition exec_find :: "engine \<Rightarrow> string \<Rightarrow> int \<Rightarrow> jsnum \<Rightarrow> jsnum \<Rightarrow> doc list \<Rightarrow> string + doc list" where
  \<comment> \<open>\<^verbatim>\<open>Model.find(query).sort({[key]: dir}).limit(lmt).skip(sk).exec()\<close> on the matching
      documents\<close>
  "exec_find eng key dir lmt sk ds =
     (if is_natural lmt \<and> is_natural sk
      then Inr (let rest = drop (natural_of sk) (sort_docs eng key dir ds)
                in if natural_of lmt = 0 then rest else take (natural_of lmt) rest)
      else irregular eng lmt sk (sort_docs eng key dir ds))"

definition page_of ::
  "engine \<Rightarrow> string \<Rightarrow> string \<Rightarrow> int \<Rightarrow> list_query \<Rightarrow> doc list \<Rightarrow> listing response" where
  \<comment> \<open>the body the three list handlers share; \<open>ds\<close> are the documents matching the query\<close>
  "page_of eng failure key dir q ds =
     (let pg = to_number 1 (q_page q); lmt = to_number 100 (q_limit q)
      in case exec_find eng key dir (js_mul lmt (Num 1)) (js_mul (js_sub pg (Num 1)) lmt) ds of
           Inl msg \<Rightarrow> Failure 500 failure []
         | Inr found \<Rightarrow>
             Success 200
               \<lparr>data = found,
                pagination =
                  \<lparr>page = parseInt 1 (q_page q), limit = parseInt 100 (q_limit q),
                   total = length ds,
                   pages = math_ceil (js_div (Num (of_nat (length ds))) lmt)\<rparr>\<rparr>)"

definition get_records :: "engine \<Rightarrow> database \<Rightarrow> auth_header \<Rightarrow> list_query \<Rightarrow> listing response" where
  "get_records eng db authHeader q =
     page_of eng ''Failed to fetch records''
       (case q_sortBy q of None \<Rightarrow> ''createdAt'' | Some k \<Rightarrow> k)
       (if (case q_sortOrder q of None \<Rightarrow> ''desc'' | Some order \<Rightarrow> order) = ''desc'' then - 1 else 1)
       q (records db)"

definition truthy :: "string option \<Rightarrow> bool" where
  "truthy v = (case v of None \<Rightarrow> False | Some s \<Rightarrow> s \<noteq> [])"

definition matching :: "string \<Rightarrow> string option \<Rightarrow> doc list \<Rightarrow> doc list" where
  \<comment> \<open>\<^verbatim>\<open>if (v) query[p] = v\<close>\<close>
  "matching p v ds = (if truthy v then filter (\<lambda>d. strings d p = v) ds else ds)"

definition get_feedback :: "engine \<Rightarrow> database \<Rightarrow> auth_header \<Rightarrow> list_query \<Rightarrow> listing response" where
  "get_feedback eng db authHeader q =
     page_of eng ''Failed to fetch feedback'' ''createdAt'' (- 1) q
       (matching ''status'' (q_status q) (feedback db))"

definition get_projects :: "engine \<Rightarrow> database \<Rightarrow> auth_header \<Rightarrow> list_query \<Rightarrow> listing response" where
  "get_projects eng db authHeader q =
     page_of eng ''Failed to fetch projects'' ''createdAt'' (- 1) q
       (matching ''priority'' (q_priority q) (matching ''status'' (q_status q) (projects db)))"

subsection \<open>The settings handlers\<close>

definition get_settings :: "database \<Rightarrow> auth_header \<Rightarrow> (string \<rightharpoonup> jsvalue) response" where
  "get_settings db authHeader =
     Success 200 (fold (\<lambda>st acc. acc(skey st \<mapsto> svalue st)) (settings db) Map.empty)"

fun upsert :: "nat \<Rightarrow> string \<times> jsvalue \<Rightarrow> setting list \<Rightarrow> setting list" where
  \<comment> \<open>\<^verbatim>\<open>Settings.findOneAndUpdate({key}, {key, value, updatedAt}, {upsert: true})\<close>\<close>
  "upsert now (k, v) [] = [\<lparr>skey = k, svalue = v, description = None, changed_at = now\<rparr>]"
| "upsert now (k, v) (st # sts) =
     (if skey st = k then st\<lparr>skey := k, svalue := v, changed_at := now\<rparr> # sts
      else st # upsert now (k, v) sts)"

definition put_settings ::
  "server_env \<Rightarrow> nat \<Rightarrow> database \<Rightarrow> auth_header \<Rightarrow> (string \<times> jsvalue) list option
     \<Rightarrow> unit response \<times> database" where
  \<comment> \<open>the body's \<^verbatim>\<open>settings\<close> object as its entries; without it \<^verbatim>\<open>Object.entries\<close> throws\<close>
  "put_settings env now db authHeader entries =
     (case authenticateToken (JWT_SECRET env) now authHeader of
        Inl denied \<Rightarrow> (denied, db)
      | Inr user \<Rightarrow>
          (case entries of
             None \<Rightarrow> (Failure 500 ''Failed to update settings'' [], db)
           | Some kvs \<Rightarrow> (Success 200 (), db\<lparr>settings := fold (upsert now) kvs (settings db)\<rparr>)))"

definition stored_setting :: "database \<Rightarrow> string \<Rightarrow> jsvalue option" where
  "stored_setting db k = map_option svalue (find (\<lambda>st. skey st = k) (settings db))"

subsection \<open>The client's reconciliation sweep\<close>

text \<open>
  The page controller of \<^verbatim>\<open>app-fixed.js\<close>, as far as \<^verbatim>\<open>syncWithServer\<close> reads and writes
  it. A cached item is the text \<^verbatim>\<open>${record.id}\<close> prints and the object that is sent. The
  network is a parameter: what a call returns, given the calls made before it.
\<close>

record item =
  item_id :: string
  content :: body

record local_cache =
  c_records :: "item list"
  c_feedback :: "item list"
  c_projects :: "item list"

record client =
  isOnline :: bool
  authToken :: "credential option"
  storage :: "local_cache option"

record api_call =
  endpoint :: string
  http_method :: string
  sent :: "item option"
  bearer_token :: "credential option"

datatype http_result = NetworkError string | HttpResponse nat "string option"

type_synonym network = "api_call list \<Rightarrow> api_call \<Rightarrow> http_result"

datatype api_outcome = Returned_null | Returned_json | Threw string

fun show_nat :: "nat \<Rightarrow> string" where
  "show_nat n =
     (if n < 10 then [''0123456789'' ! n]
      else show_nat (n div 10) @ [''0123456789'' ! (n mod 10)])"

declare show_nat.simps [simp del]

fun starts_with :: "string \<Rightarrow> string \<Rightarrow> bool" where
  "starts_with s [] = True"
| "starts_with [] (c # cs) = False"
| "starts_with (x # xs) (c # cs) = (x = c \<and> starts_with xs cs)"

fun js_includes :: "string \<Rightarrow> string \<Rightarrow> bool" where
  \<comment> \<open>\<^verbatim>\<open>s.includes(part)\<close>\<close>
  "js_includes [] part = (part = [])"
| "js_includes (x # xs) part = (starts_with (x # xs) part \<or> js_includes xs part)"

definition error_message :: "nat \<Rightarrow> string option \<Rightarrow> string" where
  \<comment> \<open>\<^verbatim>\<open>errorData.error || `HTTP error! status: ${response.status}`\<close>\<close>
  "error_message st err =
     (case err of
        None \<Rightarrow> ''HTTP error! status: '' @ show_nat st
      | Some e \<Rightarrow> if e = [] then ''HTTP error! status: '' @ show_nat st else e)"

definition apiRequest ::
  "network \<Rightarrow> client \<times> api_call list \<Rightarrow> string \<Rightarrow> string \<Rightarrow> item option
     \<Rightarrow> api_outcome \<times> client \<times> api_call list" where
  "apiRequest net st ep m payload =
     (case st of
        (cl, calls) \<Rightarrow>
          let call = \<lparr>endpoint = ep, http_method = m, sent = payload, bearer_token = authToken cl\<rparr>
          in case net calls call of
               NetworkError msg \<Rightarrow> (Threw msg, cl, calls @ [call])
             | HttpResponse code err \<Rightarrow>
                 if code = 401 then (Returned_null, cl\<lparr>authToken := None\<rparr>, calls @ [call])
                 else if \<not> (200 \<le> code \<and> code \<le> 299)
                 then (Threw (error_message code err), cl, calls @ [call])
                 else (Returned_json, cl, calls @ [call]))"

text \<open>
  The loop over the cached records. The flag of the result says that an exception left the
  loop (to the \<^verbatim>\<open>catch\<close> of \<^verbatim>\<open>syncWithServer\<close>): the \<^verbatim>\<open>PUT\<close> is inside a \<^verbatim>\<open>try\<close> of its
  own, the \<^verbatim>\<open>POST\<close> of its \<^verbatim>\<open>catch\<close> block is not.
\<close>

fun sync_records :: "network \<Rightarrow> item list \<Rightarrow> client \<times> api_call list \<Rightarrow> bool \<times> client \<times> api_call list" where
  "sync_records net [] st = (False, st)"
| "sync_records net (r # rs) st =
     (case apiRequest net st (''/records/'' @ item_id r) ''PUT'' (Some r) of
        (Threw msg, st') \<Rightarrow>
          if js_includes msg ''not found''
          then (case apiRequest net st' ''/records'' ''POST'' (Some r) of
                  (Threw msg', st'') \<Rightarrow> (True, st'')
                | (_, st'') \<Rightarrow> sync_records net rs st'')
          else sync_records net rs st'
      | (_, st') \<Rightarrow> sync_records net rs st')"

definition syncWithServer :: "network \<Rightarrow> client \<times> api_call list \<Rightarrow> client \<times> api_call list" where
  "syncWithServer net st =
     (case apiRequest net st ''/health'' ''GET'' None of
        (Threw msg, cl, calls) \<Rightarrow> (cl\<lparr>isOnline := False\<rparr>, calls)
      | (_, cl, calls) \<Rightarrow>
          (case storage cl of
             None \<Rightarrow> (cl\<lparr>isOnline := True\<rparr>, calls)
           | Some localData \<Rightarrow>
               (case sync_records net (c_records localData) (cl\<lparr>isOnline := True\<rparr>, calls) of
                  (threw, cl', calls') \<Rightarrow>
                    (if threw then cl'\<lparr>isOnline := False\<rparr> else cl', calls'))))"

subsection \<open>Vocabulary of the properties\<close>

text \<open>
  A request carries a valid admin credential when the second piece of its
  \<^verbatim>\<open>authorization\<close> header is a token signed with the server's key whose expiry second
  has not been reached.
\<close>

fun valid_token :: "string \<Rightarrow> nat \<Rightarrow> credential \<Rightarrow> bool" where
  "valid_token k now (Signed k' c) = (k' = k \<and> now div 1000 < exp c)"
| "valid_token k now _ = False"

definition carries_valid_credential :: "string \<Rightarrow> nat \<Rightarrow> auth_header \<Rightarrow> bool" where
  "carries_valid_credential k now h =
     (case h of None \<Rightarrow> False | Some parts \<Rightarrow> 2 \<le> length parts \<and> valid_token k now (parts ! 1))"

definition denial :: "auth_header \<Rightarrow> string" where
  \<comment> \<open>the message of the 401 a request without a valid credential gets\<close>
  "denial h =
     (case h of
        None \<Rightarrow> ''Access token required''
      | Some parts \<Rightarrow>
          if length parts < 2 \<or> falsy_token (parts ! 1) then ''Access token required''
          else ''Invalid or expired token'')"

fun claims_in :: "credential \<Rightarrow> claims" where
  "claims_in (Signed k c) = c"
| "claims_in (Unsigned c) = c"
| "claims_in (Garbage s) = \<lparr>role = [], timestamp = 0, iat = 0, exp = 0\<rparr>"

definition presented :: "auth_header \<Rightarrow> claims" where
  "presented h = (case h of None \<Rightarrow> claims_in (Garbage []) | Some parts \<Rightarrow> claims_in (parts ! 1))"

definition issued :: "server_env \<Rightarrow> nat \<Rightarrow> credential" where
  \<comment> \<open>the token a successful login at clock \<open>now\<close> returns\<close>
  "issued env now = jwt_sign ''admin'' now (JWT_SECRET env) JWT_EXPIRES_IN now"

definition docs_for :: "string \<Rightarrow> database \<Rightarrow> setting list" where
  \<comment> \<open>the stored settings documents of a key\<close>
  "docs_for k db = filter (\<lambda>st. skey st = k) (settings db)"

definition settings_read :: "database \<Rightarrow> string \<rightharpoonup> jsvalue" where
  \<comment> \<open>the mapping \<^verbatim>\<open>GET /api/settings\<close> returns\<close>
  "settings_read db = (case get_settings db None of Success c m \<Rightarrow> m | Failure c e ds \<Rightarrow> Map.empty)"

definition reads_as :: "rat \<Rightarrow> qparam \<Rightarrow> int \<Rightarrow> bool" where
  \<comment> \<open>the \<^verbatim>\<open>page\<close> or \<^verbatim>\<open>limit\<close> parameter, or its default when it is missing, is the integer
      \<open>n\<close> in both readings\<close>
  "reads_as dflt v n = (to_number dflt v = Num (of_int n) \<and> parseInt dflt v = Num (of_int n))"

definition exactly_counted :: "int \<Rightarrow> int \<Rightarrow> database \<Rightarrow> bool" where
  \<comment> \<open>the numbers a list request for page \<open>p\<close> of size \<open>l\<close> computes with are integers up
      to \<open>2 ^ 53\<close>, where the arithmetic of doubles is exact\<close>
  "exactly_counted p l db =
     (p * l \<le> 2 ^ 53 \<and> length (records db) < 2 ^ 53
      \<and> length (feedback db) < 2 ^ 53 \<and> length (projects db) < 2 ^ 53)"

fun listed :: "listing response \<Rightarrow> doc list" where
  \<comment> \<open>the documents in the \<^verbatim>\<open>data\<close> of a reply\<close>
  "listed (Success c l) = data l"
| "listed (Failure c e ds) = []"

definition expected_page :: "int \<Rightarrow> int \<Rightarrow> doc list \<Rightarrow> doc list \<Rightarrow> listing" where
  \<comment> \<open>the page the specification describes: page \<open>p\<close> of size \<open>l\<close> of the documents \<open>found\<close>,
      given in the order \<open>ordered\<close>\<close>
  "expected_page p l ordered found =
     \<lparr>data = take (nat l) (drop (nat ((p - 1) * l)) ordered),
      pagination =
        \<lparr>page = Num (of_int p), limit = Num (of_int l), total = length found,
         pages = Num (of_int \<lceil>of_nat (length found) / rat_of_int l\<rceil>)\<rparr>\<rparr>"

text \<open>
  The \<^verbatim>\<open>_id\<close>s of a collection are distinct and were all handed out already. The handlers
  keep it so, starting from the empty database.
\<close>

definition ids_in_order :: "database \<Rightarrow> bool" where
  "ids_in_order db =
     (distinct (map oid (records db)) \<and> distinct (map oid (feedback db))
      \<and> distinct (map oid (projects db))
      \<and> list_all (\<lambda>d. oid d < next_oid db) (records db @ feedback db @ projects db))"

text \<open>The seven location counters of a job and their sum in a stored document.\<close>

definition location_counters :: "string list" where
  "location_counters =
     [''quantities.bng'', ''quantities.sampling'', ''quantities.rcc'', ''quantities.rd'',
      ''quantities.kaa'', ''quantities.bom'', ''quantities.other'']"

definition counter_sum :: "doc \<Rightarrow> rat" where
  "counter_sum d = sum_list (map (\<lambda>p. case nums d p of None \<Rightarrow> 0 | Some q \<Rightarrow> q) location_counters)"

fun supplied :: "rat field \<Rightarrow> rat option" where
  "supplied (Val q) = Some q"
| "supplied _ = None"

text \<open>The vocabulary of the reconciliation sweep.\<close>

definition thrown :: "network \<Rightarrow> api_call list \<Rightarrow> api_call \<Rightarrow> bool" where
  \<comment> \<open>\<^verbatim>\<open>apiRequest\<close> throws on this call: the network fails or the status is neither 401 nor 2xx\<close>
  "thrown net calls call =
     (case net calls call of
        NetworkError msg \<Rightarrow> True
      | HttpResponse code err \<Rightarrow> code \<noteq> 401 \<and> \<not> (200 \<le> code \<and> code \<le> 299))"

definition not_found_thrown :: "network \<Rightarrow> api_call list \<Rightarrow> api_call \<Rightarrow> bool" where
  \<comment> \<open>it throws an error whose message includes \<^verbatim>\<open>not found\<close>\<close>
  "not_found_thrown net calls call =
     (case net calls call of
        NetworkError msg \<Rightarrow> js_includes msg ''not found''
      | HttpResponse code err \<Rightarrow>
          code \<noteq> 401 \<and> \<not> (200 \<le> code \<and> code \<le> 299)
          \<and> js_includes (error_message code err) ''not found'')"

definition after :: "network \<Rightarrow> api_call list \<Rightarrow> client \<Rightarrow> api_call \<Rightarrow> client" where
  \<comment> \<open>the client after the call: a 401 logs it out\<close>
  "after net calls cl call =
     (case net calls call of
        NetworkError msg \<Rightarrow> cl
      | HttpResponse code err \<Rightarrow> if code = 401 then cl\<lparr>authToken := None\<rparr> else cl)"

definition request :: "client \<Rightarrow> string \<Rightarrow> string \<Rightarrow> item option \<Rightarrow> api_call" where
  "request cl ep m payload =
     \<lparr>endpoint = ep, http_method = m, sent = payload, bearer_token = authToken cl\<rparr>"

definition update_of :: "client \<Rightarrow> item \<Rightarrow> api_call" where
  "update_of cl r = request cl (''/records/'' @ item_id r) ''PUT'' (Some r)"

definition create_of :: "client \<Rightarrow> item \<Rightarrow> api_call" where
  "create_of cl r = request cl ''/records'' ''POST'' (Some r)"

definition pushes_record :: "item list \<Rightarrow> api_call \<Rightarrow> bool" where
  \<comment> \<open>an update or a create of one of the given records\<close>
  "pushes_record rs call =
     list_ex (\<lambda>r. sent call = Some r
                \<and> ((http_method call = ''PUT'' \<and> endpoint call = ''/records/'' @ item_id r)
                   \<or> (http_method call = ''POST'' \<and> endpoint call = ''/records''))) rs"

fun creates_follow_not_found :: "network \<Rightarrow> api_call list \<Rightarrow> api_call list \<Rightarrow> bool" where
  \<comment> \<open>in the calls made after the history \<open>hist\<close>, every create comes right after an update of the
      same record that threw a not-found error\<close>
  "creates_follow_not_found net hist [] = True"
| "creates_follow_not_found net hist (c # cs) =
     ((if http_method c = ''POST''
       then (case rev hist of
               [] \<Rightarrow> False
             | p # before \<Rightarrow> http_method p = ''PUT'' \<and> sent p = sent c
                              \<and> not_found_thrown net (rev before) p)
       else True)
      \<and> creates_follow_not_found net (hist @ [c]) cs)"

definition loop_calls :: "network \<Rightarrow> item list \<Rightarrow> client \<Rightarrow> api_call list \<Rightarrow> api_call list" where
  \<comment> \<open>the calls the loop over the cached records adds to the history\<close>
  "loop_calls net rs cl calls = drop (length calls) (snd (snd (sync_records net rs (cl, calls))))"

subsection \<open>Sample data\<close>

definition sample_env :: server_env where
  "sample_env =
     \<lparr>JWT_SECRET = ''server-key'',
      bcrypt_compare = (\<lambda>p. p = ''3dprinter@aqrl''),
      isEmail = (\<lambda>s. CHR ''@'' \<in> set s),
      normalizeEmail = (\<lambda>s. s),
      email_pattern = (\<lambda>s. CHR ''@'' \<in> set s)\<rparr>"

definition sample_claims :: claims where
  "sample_claims = \<lparr>role = ''admin'', timestamp = 1000000, iat = 1000, exp = 4600\<rparr>"

definition sample_token :: credential where
  "sample_token = Signed ''server-key'' sample_claims"

definition sample_feedback :: body where
  "sample_feedback =
     \<lparr>texts = (\<lambda>p. Absent)
        (''name'' := Val ''Asha'', ''email'' := Val ''asha@example.com'', ''location'' := Val ''BNG'',
         ''category'' := Val ''general'', ''subject'' := Val ''Surface finish'',
         ''message'' := Val ''Layer lines are visible''),
      numbers = (\<lambda>p. Absent)(''rating'' := Val 4),
      dates = (\<lambda>p. Absent)\<rparr>"

definition sample_engine :: engine where
  \<comment> \<open>a stable sort on the instant at the key; a query outside the cursor's contract throws\<close>
  "sample_engine =
     \<lparr>sort_docs = (\<lambda>k dir ds. sort_key (\<lambda>d. dir * (case instants d k of None \<Rightarrow> 0 | Some t \<Rightarrow> int t)) ds),
      irregular = (\<lambda>l s ds. Inl ''MongoError'')\<rparr>"

definition sample_database :: database where
  "sample_database =
     \<lparr>records = [blank_doc 0, blank_doc 1],
      feedback = [blank_doc 2],
      projects = [blank_doc 3],
      settings =
        [\<lparr>skey = ''projectIdCounter'', svalue = JNumber 42, description = None, changed_at = 1000\<rparr>,
         \<lparr>skey = ''investment'', svalue = JNumber 600000, description = None, changed_at = 1000\<rparr>],
      next_oid = 4\<rparr>"

definition sample_feedback_six :: body where
  "sample_feedback_six = sample_feedback\<lparr>numbers := (numbers sample_feedback)(''rating'' := Val 6)\<rparr>"

definition sample_collection :: database where
  "sample_collection = empty_database\<lparr>records := map blank_doc [0..<25], next_oid := 25\<rparr>"

definition sample_job :: body where
  "sample_job =
     \<lparr>texts = (\<lambda>p. Absent)
        (''projectName'' := Val ''Gearbox'', ''partType'' := Val ''Bracket'', ''partSize'' := Val ''M'',
         ''partName'' := Val ''Widget A'', ''application'' := Val ''Fixture'',
         ''materialUsed'' := Val ''PLA'', ''machineName'' := Val ''Prusa'',
         ''status'' := Val ''completed'', ''category'' := Val ''production''),
      numbers = (\<lambda>p. Absent)
        (''printingTimeMins'' := Val 120, ''printingTimeHrs'' := Val 2, ''printPrice'' := Val 100,
         ''electricityCost'' := Val 4, ''printCost'' := Val 104, ''oemCost'' := Val 500,
         ''savingsPerProduct'' := Val 10, ''quantities.bng'' := Val 1,
         ''totalQuantity'' := Val 5, ''totalSavings'' := Val 7),
      dates = (\<lambda>p. Absent)(''date'' := Val (DateText True (Some 1700000000000) (Some 1700000000000)))\<rparr>"

definition sample_network :: network where
  "sample_network calls call =
     (if http_method call = ''GET'' then HttpResponse 200 None
      else if http_method call = ''PUT'' then HttpResponse 404 (Some ''Record not found'')
      else HttpResponse 500 (Some ''Failed to create record''))"

definition widget_a :: item where
  "widget_a = \<lparr>item_id = ''665f1c2e9b3a4d0012ab34cd'', content = sample_job\<rparr>"

definition widget_b :: item where
  "widget_b = \<lparr>item_id = ''665f1c2e9b3a4d0012ab34ce'', content = sample_job\<rparr>"

definition sample_client :: client where
  "sample_client =
     \<lparr>isOnline = False, authToken = Some sample_token,
      storage = Some \<lparr>c_records = [widget_a, widget_b], c_feedback = [], c_projects = []\<rparr>\<rparr>"

section \<open>Properties of the handlers\<close>

subsection \<open>Doubles\<close>

text \<open>
  Rounding leaves the integers up to \<open>2 ^ 53\<close> as they are, and the quotient of two such
  integers, rounded, has the ceiling of the exact quotient when the dividend is below
  \<open>2 ^ 53\<close>.
\<close>

lemma binade_bounds:
  assumes "0 < q"
  shows "2 powi binade q \<le> q" and "q < 2 powi (binade q + 1)"
proof -
  obtain a b where ab: "quotient_of q = (a, b)" by (cases "quotient_of q")
  then have q: "q = of_int a / of_int b" and b: "0 < b"
    by (simp_all add: quotient_of_div quotient_of_denom_pos)
  with assms have a: "0 < a" by (simp add: zero_less_divide_iff)
  define d where "d = bitlen a - bitlen b"
  have la: "1 \<le> bitlen a" "1 \<le> bitlen b" using a b by (simp_all add: bitlen_alt_def)
  have pw: "(2::rat) powi k = of_int (2 ^ nat k)" if "0 \<le> k" for k
    using that by (simp add: power_int_def)
  have a1: "(2::rat) powi (bitlen a - 1) \<le> of_int a"
    using bitlen_bounds[OF a] la by (metis diff_ge_0_iff_ge of_int_le_iff pw)
  have a2: "of_int a < (2::rat) powi bitlen a"
    using bitlen_bounds[OF a] la by (metis of_int_less_iff pw zero_le_one order_trans)
  have b1: "(2::rat) powi (bitlen b - 1) \<le> of_int b"
    using bitlen_bounds[OF b] la by (metis diff_ge_0_iff_ge of_int_le_iff pw)
  have b2: "of_int b < (2::rat) powi bitlen b"
    using bitlen_bounds[OF b] la by (metis of_int_less_iff pw zero_le_one order_trans)
  have bp: "(0::rat) < of_int b" "(0::rat) < of_int a" using a b by simp_all
  have pos: "(0::rat) < 2 powi k" for k by simp
  have lo: "(2::rat) powi (d - 1) < q"
  proof -
    have "(2::rat) powi (d - 1) = 2 powi (bitlen a - 1) / 2 powi bitlen b"
      unfolding d_def by (simp add: power_int_diff)
    also have "\<dots> \<le> of_int a / 2 powi bitlen b"
      using a1 by (simp add: divide_right_mono)
    also have "\<dots> < of_int a / of_int b"
      using b2 bp by (simp add: divide_strict_left_mono)
    finally show ?thesis by (simp add: q)
  qed
  have hi: "q < (2::rat) powi (d + 1)"
  proof -
    have "q = of_int a / of_int b" by (rule q)
    also have "\<dots> < 2 powi bitlen a / of_int b"
      using a2 bp by (simp add: divide_strict_right_mono)
    also have "\<dots> \<le> 2 powi bitlen a / 2 powi (bitlen b - 1)"
      by (rule divide_left_mono) (use b1 bp in simp_all)
    also have "\<dots> = 2 powi (d + 1)"
      unfolding d_def by (simp add: power_int_diff power_int_add)
    finally show ?thesis .
  qed
  have bd: "binade q = (if 2 powi d \<le> q then d else d - 1)"
    by (simp add: binade_def ab d_def Let_def)
  show "2 powi binade q \<le> q" using lo by (simp add: bd)
  show "q < 2 powi (binade q + 1)" using hi by (simp add: bd not_le)
qed


lemma round_half_even_of_int: "round_half_even (of_int k) = k"
  by (simp add: round_half_even_def)

lemma round_half_even_le:
  assumes "q \<le> of_int k"
  shows "round_half_even q \<le> k"
proof -
  from assms have f: "\<lfloor>q\<rfloor> \<le> k" by (simp add: floor_le_iff)
  show ?thesis
  proof (cases "q - of_int \<lfloor>q\<rfloor> < 1 / 2")
    case True
    then show ?thesis using f by (simp add: round_half_even_def)
  next
    case False
    then have "of_int \<lfloor>q\<rfloor> < q" by simp
    with assms have "of_int \<lfloor>q\<rfloor> < (of_int k :: rat)" by simp
    then have "\<lfloor>q\<rfloor> < k" by simp
    then show ?thesis by (simp add: round_half_even_def Let_def)
  qed
qed

lemma round_half_even_gt:
  assumes "of_int k + 1 / 2 < q"
  shows "k < round_half_even q"
proof -
  from assms have "of_int k \<le> q" by simp
  then have f: "k \<le> \<lfloor>q\<rfloor>" by (simp add: le_floor_iff)
  show ?thesis
  proof (cases "k = \<lfloor>q\<rfloor>")
    case True
    with assms have "1 / 2 < q - of_int \<lfloor>q\<rfloor>" by simp
    then show ?thesis using True by (simp add: round_half_even_def Let_def)
  next
    case False
    with f have "k < \<lfloor>q\<rfloor>" by simp
    then show ?thesis by (simp add: round_half_even_def Let_def)
  qed
qed

lemma power_int_less_cancel:
  assumes "(2::rat) powi a < 2 powi b"
  shows "a < b"
proof (rule ccontr)
  assume "\<not> a < b"
  then have "b \<le> a" by simp
  then have "(2::rat) powi b \<le> 2 powi a" by (intro power_int_increasing) simp_all
  with assms show False by simp
qed

lemma to_double_scaled:
  \<comment> \<open>a positive number of at most 53 bits above its unit is a double\<close>
  assumes "0 < q" and "- 1022 \<le> binade q" and "q / 2 powi (binade q - 52) = of_int m" and "q < 2 ^ 1024"
  shows "to_double q = Num q"
proof -
  have u: "(2::rat) powi (binade q - 52) \<noteq> 0" by simp
  from assms(3) have "of_int m * 2 powi (binade q - 52) = q"
    using u by (simp add: field_simps)
  then show ?thesis
    using assms by (simp add: to_double_def Let_def max_def round_half_even_of_int)
qed

lemma to_double_of_nat:
  assumes "n \<le> 2 ^ 53"
  shows "to_double (of_nat n) = Num (of_nat n)"
proof (cases "n = 0")
  case True
  then show ?thesis by (simp add: to_double_def)
next
  case False
  define q :: rat where "q = of_nat n"
  define e where "e = binade q"
  have q: "1 \<le> q" "0 < q" "q \<le> 2 ^ 53" using False assms
    unfolding q_def by (simp_all add: of_nat_le_iff[of n "2 ^ 53", where ?'a = rat, simplified])
  have lo: "2 powi e \<le> q" and hi: "q < 2 powi (e + 1)"
    using binade_bounds[OF q(2)] by (simp_all add: e_def)
  have "(2::rat) powi 0 < 2 powi (e + 1)" using q(1) hi by simp
  then have e0: "0 \<le> e" using power_int_less_cancel[of 0 "e + 1"] by simp
  have "(2::rat) powi e < 2 powi 54" using lo q(3) by (simp add: power_int_def)
  then have e53: "e \<le> 53" using power_int_less_cancel[of e 54] by simp
  have "\<exists>m. q / 2 powi (e - 52) = of_int m"
  proof (cases "e = 53")
    case True
    then have "2 ^ 53 \<le> q" using lo by (simp add: power_int_def)
    with q(3) have "q = 2 ^ 53" by simp
    then have "q / 2 powi (e - 52) = of_int (2 ^ 52)" using True by simp
    then show ?thesis by blast
  next
    case False
    with e53 have "e \<le> 52" by simp
    then have "(2::rat) powi (e - 52) = 1 / 2 ^ nat (52 - e)"
      by (simp add: power_int_def field_simps)
    then have "q / 2 powi (e - 52) = of_int (int n * 2 ^ nat (52 - e))"
      by (simp add: q_def)
    then show ?thesis by blast
  qed
  then obtain m where m: "q / 2 powi (binade q - 52) = of_int m" unfolding e_def by blast
  have "q < 2 ^ 1024" using q(3) by (rule le_less_trans) simp
  with to_double_scaled[OF q(2) _ m] e0 show ?thesis by (simp add: e_def q_def)
qed

lemma ceil_to_double_quotient:
  assumes "t < 2 ^ 53" and "1 \<le> l" and "l \<le> 2 ^ 53"
  shows "math_ceil (to_double (of_nat t / of_int l)) = Num (of_int \<lceil>of_nat t / rat_of_int l\<rceil>)"
proof (cases "t = 0")
  case True
  then show ?thesis by (simp add: to_double_def)
next
  case False
  define x :: rat where "x = of_nat t / of_int l"
  define e where "e = binade x"
  define c where "c = \<lceil>x\<rceil>"
  define K :: int where "K = 2 ^ nat (52 - e)"
  have lp: "(0::rat) < of_int l" using assms by simp
  have tp: "(1::rat) \<le> of_nat t" using False by simp
  have t53: "(of_nat t :: rat) < 2 ^ 53"
    using assms(1) of_nat_less_iff[of t "2 ^ 53", where ?'a = rat] by simp
  have l53: "(of_int l :: rat) \<le> 2 ^ 53"
    using assms(3) of_int_le_iff[of l "2 ^ 53", where ?'a = rat] by simp
  have x0: "0 < x" using lp tp by (simp add: x_def)
  have xl: "1 / of_int l \<le> x" using lp tp by (simp add: x_def divide_right_mono)
  have xs: "x / 2 ^ 53 < 1 / of_int l"
    using lp t53 by (simp add: x_def field_simps)
  have xu: "x < 2 ^ 53"
  proof -
    have "x \<le> of_nat t" using lp tp assms(2) by (simp add: x_def field_simps mult_le_cancel_left1)
    with t53 show ?thesis by simp
  qed
  have xd: "1 / 2 ^ 53 \<le> x"
  proof -
    have "1 / 2 ^ 53 \<le> 1 / (of_int l :: rat)" using lp l53 by (simp add: field_simps)
    with xl show ?thesis by simp
  qed
  have lo: "2 powi e \<le> x" and hi: "x < 2 powi (e + 1)"
    using binade_bounds[OF x0] by (simp_all add: e_def)
  have "(2::rat) powi e < 2 powi 53" using lo xu by (simp add: power_int_def)
  then have e52: "e \<le> 52" using power_int_less_cancel[of e 53] by simp
  have "(2::rat) powi (- 53) < 2 powi (e + 1)"
    using xd hi by (simp add: power_int_def field_simps)
  then have em: "- 54 < e" using power_int_less_cancel[of "- 53" "e + 1"] by simp
  have Kp: "0 < K" by (simp add: K_def)
  have u: "(2::rat) powi (e - 52) = 1 / of_int K"
    using e52 by (simp add: K_def power_int_def field_simps)
  have half: "2 powi (e - 52) / 2 \<le> x / 2 ^ 53"
  proof -
    have "(2::rat) powi (e - 52) / 2 = 2 powi e / 2 ^ 53"
      by (simp add: power_int_diff)
    also have "\<dots> \<le> x / 2 ^ 53" using lo by (simp add: divide_right_mono)
    finally show ?thesis .
  qed
  define m where "m = round_half_even (x * of_int K)"
  have c1: "of_int c - 1 < x" and c2: "x \<le> of_int c" unfolding c_def by linarith+
  have gap: "1 / of_int l \<le> x - (of_int c - 1)"
  proof -
    have "0 < of_nat t - (of_int c - 1) * (of_int l :: rat)"
      using c1 lp by (simp add: x_def field_simps)
    then have "(0::rat) < of_int (int t - (c - 1) * l)" by simp
    then have "0 < int t - (c - 1) * l" by (simp only: of_int_0_less_iff)
    then have "1 \<le> int t - (c - 1) * l" by simp
    then have "(1::rat) \<le> of_int (int t - (c - 1) * l)" by (simp only: of_int_1_le_iff)
    then have "(1::rat) \<le> of_nat t - (of_int c - 1) * of_int l" by simp
    then show ?thesis using lp by (simp add: x_def field_simps)
  qed
  have up: "m \<le> c * K"
  proof -
    have "x * of_int K \<le> of_int (c * K)" using c2 Kp by (simp add: mult_right_mono)
    then show ?thesis unfolding m_def by (rule round_half_even_le)
  qed
  have dn: "(c - 1) * K < m"
  proof -
    have "1 / of_int K / 2 < x - (of_int c - 1)"
      using half xs gap unfolding u by linarith
    then have "of_int ((c - 1) * K) + 1 / 2 < x * of_int K"
      using Kp by (simp add: field_simps)
    then show ?thesis unfolding m_def by (rule round_half_even_gt)
  qed
  define r :: rat where "r = of_int m * 2 powi (e - 52)"
  have r1: "of_int c - 1 < r"
  proof -
    have "of_int ((c - 1) * K) < (of_int m :: rat)" using dn by (simp only: of_int_less_iff)
    then show ?thesis using Kp by (simp add: r_def u field_simps)
  qed
  have r2: "r \<le> of_int c"
  proof -
    have "(of_int m :: rat) \<le> of_int (c * K)" using up by (simp only: of_int_le_iff)
    then show ?thesis using Kp by (simp add: r_def u field_simps)
  qed
  have cr: "\<lceil>r\<rceil> = c" using r1 r2 by (intro ceiling_unique) simp_all
  have "r \<le> 2 ^ 53"
  proof -
    have "x \<le> 2 ^ 53" using xu by simp
    then have "c \<le> 2 ^ 53" unfolding c_def by (simp add: ceiling_le_iff)
    then have "(of_int c :: rat) \<le> 2 ^ 53" using of_int_le_iff[of c "2 ^ 53", where ?'a = rat] by simp
    with r2 show ?thesis by simp
  qed
  then have rb: "\<not> 2 ^ 1024 \<le> r" by (simp add: not_le)
  have mx: "max e (- 1022) = e" using em by simp
  have td: "to_double x = Num r"
    using x0 rb
    by (simp add: to_double_def Let_def e_def[symmetric] mx r_def m_def u)
  show ?thesis
    by (simp add: x_def[symmetric] td cr c_def)
qed

lemma to_double_0 [simp]: "to_double 0 = Num 0"
  by (simp add: to_double_def)

lemma to_double_1 [simp]: "to_double 1 = Num 1"
  using to_double_of_nat [of 1] by simp

lemma to_double_100 [simp]: "to_double 100 = Num 100"
  using to_double_of_nat [of 100] by simp

lemma to_double_of_int:
  assumes "0 \<le> n" and "n \<le> 2 ^ 53"
  shows "to_double (of_int n) = Num (of_int n)"
proof -
  from assms have "nat n \<le> 2 ^ 53" by (simp add: nat_le_iff)
  from to_double_of_nat[OF this] assms(1) show ?thesis by simp
qed


subsection \<open>The authentication middleware\<close>

lemma authenticate_denied:
  "\<not> carries_valid_credential k now h \<Longrightarrow>
     authenticateToken k now h = Inl (Failure 401 (denial h) [])"
proof (cases h)
  case None
  then show ?thesis by (simp add: authenticateToken_def denial_def)
next
  case (Some parts)
  assume nv: "\<not> carries_valid_credential k now h"
  show ?thesis
  proof (cases "length parts < 2 \<or> falsy_token (parts ! 1)")
    case True
    with Some show ?thesis by (simp add: authenticateToken_def denial_def)
  next
    case False
    with nv Some have "\<not> valid_token k now (parts ! 1)"
      by (simp add: carries_valid_credential_def)
    then have "\<exists>e. jwt_verify (parts ! 1) k now = Inl e"
      by (cases "parts ! 1") auto
    with False Some show ?thesis by (auto simp: authenticateToken_def denial_def)
  qed
qed

lemma authenticate_admitted:
  "carries_valid_credential k now h \<Longrightarrow> authenticateToken k now h = Inr (presented h)"
proof (cases h)
  case None
  assume "carries_valid_credential k now h"
  with None show ?thesis by (simp add: carries_valid_credential_def)
next
  case (Some parts)
  assume "carries_valid_credential k now h"
  with Some have len: "2 \<le> length parts" and v: "valid_token k now (parts ! 1)"
    by (simp_all add: carries_valid_credential_def)
  from v obtain c where s: "parts ! 1 = Signed k c" and e: "now div 1000 < exp c"
    by (cases "parts ! 1") auto
  with len Some show ?thesis
    by (simp add: authenticateToken_def presented_def)
qed

lemma carries_bearer [simp]: "carries_valid_credential k now (bearer t) = valid_token k now t"
  by (simp add: carries_valid_credential_def bearer_def)

lemma carries_None [simp]: "carries_valid_credential k now None = False"
  by (simp add: carries_valid_credential_def)

lemma sample_token_valid [simp]:
  "valid_token (JWT_SECRET sample_env) 2000000 sample_token"
  by (simp add: sample_env_def sample_token_def sample_claims_def)

subsection \<open>Settings\<close>

lemma put_settings_denied:
  "\<not> carries_valid_credential (JWT_SECRET env) now h \<Longrightarrow>
     put_settings env now db h es = (Failure 401 (denial h) [], db)"
  by (simp add: put_settings_def authenticate_denied)

text \<open>
  C10. \<^verbatim>\<open>PUT /api/settings\<close> runs \<^verbatim>\<open>authenticateToken\<close> first: a request without a valid
  admin credential is answered 401 and the store is left as it was, in particular when the
  header is missing, when the token is no token, is unsigned or is signed with another key
  (invalid), and when its expiry has passed. \<^verbatim>\<open>GET /api/settings\<close> does not look at the
  header and answers 200.
\<close>

theorem settings_write_requires_credential:
  "(\<not> carries_valid_credential (JWT_SECRET env) now h \<longrightarrow>
      status_of (fst (put_settings env now db h es)) = 401
      \<and> snd (put_settings env now db h es) = db)
   \<and> status_of (fst (put_settings env now db None es)) = 401
   \<and> status_of (fst (put_settings env now db (bearer (Garbage s)) es)) = 401
   \<and> status_of (fst (put_settings env now db (bearer (Unsigned c)) es)) = 401
   \<and> (k \<noteq> JWT_SECRET env \<longrightarrow> status_of (fst (put_settings env now db (bearer (Signed k c)) es)) = 401)
   \<and> (exp c \<le> now div 1000 \<longrightarrow> status_of (fst (put_settings env now db (bearer (Signed k c)) es)) = 401)
   \<and> get_settings db h = get_settings db None
   \<and> status_of (get_settings db h) = 200"
  by (simp add: put_settings_denied get_settings_def)

theorem settings_write_requires_credential_witness:
  "\<not> carries_valid_credential (JWT_SECRET sample_env) 5000000 (bearer sample_token)
   \<and> ''other-key'' \<noteq> JWT_SECRET sample_env
   \<and> exp sample_claims \<le> 5000000 div 1000
   \<and> status_of (fst (put_settings sample_env 5000000 empty_database (bearer sample_token)
        (Some [(''investment'', JNumber 700000)]))) = 401
   \<and> snd (put_settings sample_env 5000000 empty_database (bearer sample_token)
        (Some [(''investment'', JNumber 700000)])) = empty_database
   \<and> status_of (fst (put_settings sample_env 5000000 empty_database
        (bearer (Signed ''other-key'' sample_claims)) (Some [(''investment'', JNumber 700000)]))) = 401
   \<and> status_of (get_settings empty_database (bearer sample_token)) = 200"
proof -
  have h: "\<not> carries_valid_credential (JWT_SECRET sample_env) 5000000 (bearer sample_token)"
    by (simp add: sample_env_def sample_token_def sample_claims_def)
  have k: "''other-key'' \<noteq> JWT_SECRET sample_env"
    by (simp add: sample_env_def)
  have e: "exp sample_claims \<le> 5000000 div 1000"
    by (simp add: sample_claims_def)
  from h k e settings_write_requires_credential
    [of sample_env 5000000 "bearer sample_token" empty_database
        "Some [(''investment'', JNumber 700000)]" "''x''" sample_claims "''other-key''"]
  show ?thesis by blast
qed

subsection \<open>Which routes ask for a credential\<close>

lemma denied_handlers:
  assumes "\<not> carries_valid_credential (JWT_SECRET env) now h"
  shows "post_records env now db h b = (Failure 401 (denial h) [], db)"
    and "put_records env now db h pid b = (Failure 401 (denial h) [], db)"
    and "delete_records env now db h pid = (Failure 401 (denial h) [], db)"
    and "post_projects env now db h b = (Failure 401 (denial h) [], db)"
    and "put_projects env now db h pid b = (Failure 401 (denial h) [], db)"
    and "delete_projects env now db h pid = (Failure 401 (denial h) [], db)"
    and "delete_feedback env now db h pid = (Failure 401 (denial h) [], db)"
  using assms
  by (simp_all add: post_records_def put_records_def delete_records_def post_projects_def
      put_projects_def delete_projects_def delete_feedback_def authenticate_denied)

lemma post_feedback_status:
  "status_of (fst (post_feedback env now db h b)) = 201
   \<or> status_of (fst (post_feedback env now db h b)) = 400
   \<or> status_of (fst (post_feedback env now db h b)) = 500"
  by (simp add: post_feedback_def Let_def split: prod.splits)

lemma page_of_status:
  "status_of (page_of eng msg key dir q ds) = 200 \<or> status_of (page_of eng msg key dir q ds) = 500"
  by (simp add: page_of_def Let_def split: sum.splits)

lemma page_of_default:
  "status_of (page_of eng msg key dir no_query ds) = 200"
  by (simp add: page_of_def Let_def no_query_def exec_find_def is_integer_def split: sum.splits)

lemma list_handlers_status:
  "status_of (get_records eng db h q) = 200 \<or> status_of (get_records eng db h q) = 500"
  "status_of (get_feedback eng db h q) = 200 \<or> status_of (get_feedback eng db h q) = 500"
  "status_of (get_projects eng db h q) = 200 \<or> status_of (get_projects eng db h q) = 500"
  by (simp_all add: get_records_def get_feedback_def get_projects_def page_of_status)

lemma list_handlers_default:
  "status_of (get_records eng db h no_query) = 200"
  "status_of (get_feedback eng db h no_query) = 200"
  "status_of (get_projects eng db h no_query) = 200"
  by (simp_all add: get_records_def get_feedback_def get_projects_def page_of_default)

lemma sample_feedback_created:
  "status_of (fst (post_feedback sample_env 2000000 empty_database None sample_feedback)) = 201
   \<and> length (feedback (snd (post_feedback sample_env 2000000 empty_database None sample_feedback))) = 1"
  by (simp add: post_feedback_def sample_env_def empty_database_def sample_feedback_def
      validateFeedback_def feedbackSchema_def Let_def trim_def is_space_def is_integer_def
      prints_as_digits_def saves_def construct_def blank_doc_def default_string_def
      default_number_def default_instant_def escape_def escape_char_def)

text \<open>
  C6. The routes that create, update and delete records and projects and the route that
  deletes feedback run \<^verbatim>\<open>authenticateToken\<close> first: a request without a valid admin
  credential is answered 401 and the database is left as it was. Feedback creation and the
  three list routes do not look at the header: their answer is the one a request with no
  header gets, it is never 401, and a list request with the default query is answered 200.
\<close>

theorem mutations_require_credential:
  "(\<not> carries_valid_credential (JWT_SECRET env) now h \<longrightarrow>
       post_records env now db h b = (Failure 401 (denial h) [], db)
     \<and> put_records env now db h pid b = (Failure 401 (denial h) [], db)
     \<and> delete_records env now db h pid = (Failure 401 (denial h) [], db)
     \<and> post_projects env now db h b = (Failure 401 (denial h) [], db)
     \<and> put_projects env now db h pid b = (Failure 401 (denial h) [], db)
     \<and> delete_projects env now db h pid = (Failure 401 (denial h) [], db)
     \<and> delete_feedback env now db h pid = (Failure 401 (denial h) [], db))
   \<and> post_feedback env now db h b = post_feedback env now db None b
   \<and> status_of (fst (post_feedback env now db h b)) \<noteq> 401
   \<and> get_records eng db h q = get_records eng db None q
   \<and> get_feedback eng db h q = get_feedback eng db None q
   \<and> get_projects eng db h q = get_projects eng db None q
   \<and> status_of (get_records eng db h q) \<noteq> 401
   \<and> status_of (get_feedback eng db h q) \<noteq> 401
   \<and> status_of (get_projects eng db h q) \<noteq> 401
   \<and> status_of (get_records eng db None no_query) = 200
   \<and> status_of (get_feedback eng db None no_query) = 200
   \<and> status_of (get_projects eng db None no_query) = 200"
proof -
  have pf: "post_feedback env now db h b = post_feedback env now db None b"
    by (simp add: post_feedback_def)
  have ps: "status_of (fst (post_feedback env now db h b)) \<noteq> 401"
    using post_feedback_status [of env now db h b] by auto
  have ls: "status_of (get_records eng db h q) \<noteq> 401"
    "status_of (get_feedback eng db h q) \<noteq> 401"
    "status_of (get_projects eng db h q) \<noteq> 401"
    using list_handlers_status [of eng db h q] by auto
  have d: "\<not> carries_valid_credential (JWT_SECRET env) now h \<longrightarrow>
       post_records env now db h b = (Failure 401 (denial h) [], db)
     \<and> put_records env now db h pid b = (Failure 401 (denial h) [], db)
     \<and> delete_records env now db h pid = (Failure 401 (denial h) [], db)
     \<and> post_projects env now db h b = (Failure 401 (denial h) [], db)
     \<and> put_projects env now db h pid b = (Failure 401 (denial h) [], db)
     \<and> delete_projects env now db h pid = (Failure 401 (denial h) [], db)
     \<and> delete_feedback env now db h pid = (Failure 401 (denial h) [], db)"
    by (simp add: denied_handlers)
  have pu: "get_records eng db h q = get_records eng db None q
     \<and> get_feedback eng db h q = get_feedback eng db None q
     \<and> get_projects eng db h q = get_projects eng db None q"
    by (simp add: get_records_def get_feedback_def get_projects_def)
  have df: "status_of (get_records eng db None no_query) = 200
     \<and> status_of (get_feedback eng db None no_query) = 200
     \<and> status_of (get_projects eng db None no_query) = 200"
    by (simp add: list_handlers_default)
  from d pf ps ls pu df show ?thesis by (simp only: simp_thms)
qed

theorem mutations_require_credential_witness:
  "\<not> carries_valid_credential (JWT_SECRET sample_env) 2000000 None
   \<and> post_records sample_env 2000000 empty_database None sample_feedback
       = (Failure 401 ''Access token required'' [], empty_database)
   \<and> delete_feedback sample_env 2000000 empty_database None (ObjectId 0)
       = (Failure 401 ''Access token required'' [], empty_database)
   \<and> put_projects sample_env 2000000 empty_database None (ObjectId 0) sample_feedback
       = (Failure 401 ''Access token required'' [], empty_database)
   \<and> status_of (fst (post_feedback sample_env 2000000 empty_database None sample_feedback)) = 201
   \<and> status_of (get_records sample_engine empty_database None no_query) = 200"
proof -
  have h: "\<not> carries_valid_credential (JWT_SECRET sample_env) 2000000 None"
    by simp
  have dn: "denial None = ''Access token required''"
    by (simp add: denial_def)
  from h dn sample_feedback_created
    mutations_require_credential
      [of sample_env 2000000 None empty_database sample_feedback "ObjectId 0" sample_engine no_query]
  show ?thesis by simp
qed

subsection \<open>The ids of stored documents\<close>

lemma construct_path_oid [simp]: "oid (construct_path now b e d) = oid d"
proof -
  obtain p k rs where "e = (p, k, rs)" by (cases e)
  then show ?thesis by (cases k) simp_all
qed

lemma fold_construct_oid: "oid (fold (construct_path now b) sch d) = oid d"
  by (induction sch arbitrary: d) simp_all

lemma construct_oid [simp]: "oid (construct now sch b i) = i"
  by (simp add: construct_def fold_construct_oid blank_doc_def)

lemma update_path_oid [simp]: "oid (update_path S b e d) = oid d"
proof -
  obtain p k rs where "e = (p, k, rs)" by (cases e)
  then show ?thesis by (cases k) simp_all
qed

lemma fold_update_oid: "oid (fold (update_path S b) sch d) = oid d"
  by (induction sch arbitrary: d) simp_all

lemma apply_update_oid [simp]: "oid (apply_update now sch b d) = oid d"
  by (simp add: apply_update_def Let_def fold_update_oid)

lemma update_first_oids: "(\<And>d. oid (f d) = oid d) \<Longrightarrow> map oid (update_first i f ds) = map oid ds"
  by (induction ds) simp_all

lemma delete_first_subset: "set (delete_first i ds) \<subseteq> set ds"
  by (induction ds) auto

lemma delete_first_distinct: "distinct (map oid ds) \<Longrightarrow> distinct (map oid (delete_first i ds))"
proof (induction ds)
  case Nil
  then show ?case by simp
next
  case (Cons d ds)
  then show ?case using delete_first_subset [of i ds] by auto
qed

lemma delete_first_bound:
  "list_all (\<lambda>d. oid d < n) ds \<Longrightarrow> list_all (\<lambda>d. oid d < n) (delete_first i ds)"
  using delete_first_subset [of i ds] by (auto simp: list_all_iff)

lemma update_first_bound:
  "(\<And>d. oid (f d) = oid d) \<Longrightarrow> list_all (\<lambda>d. oid d < n) ds \<Longrightarrow>
     list_all (\<lambda>d. oid d < n) (update_first i f ds)"
  by (induction ds) simp_all

lemma create_keeps_ids:
  assumes "ids_in_order db"
  shows "ids_in_order (snd (post_records env now db h b))"
    and "ids_in_order (snd (post_feedback env now db h b))"
    and "ids_in_order (snd (post_projects env now db h b))"
proof -
  have less: "list_all (\<lambda>d. oid d < n) ds \<Longrightarrow> list_all (\<lambda>d. oid d < Suc n) ds" for n ds
    by (auto simp: list_all_iff)
  have fresh: "list_all (\<lambda>d. oid d < n) ds \<Longrightarrow> n \<notin> oid ` set ds" for n ds
    by (auto simp: list_all_iff)
  show "ids_in_order (snd (post_records env now db h b))"
    using assms
    by (cases "validationResult env validateRecord b")
      (auto simp: post_records_def ids_in_order_def Let_def less dest: fresh
        split: sum.splits)
  show "ids_in_order (snd (post_feedback env now db h b))"
    using assms
    by (cases "validationResult env validateFeedback b")
      (auto simp: post_feedback_def ids_in_order_def Let_def less dest: fresh)
  show "ids_in_order (snd (post_projects env now db h b))"
    using assms
    by (cases "validationResult env validateProject b")
      (auto simp: post_projects_def ids_in_order_def Let_def less dest: fresh
        split: sum.splits)
qed

lemma delete_keeps_ids:
  assumes "ids_in_order db"
  shows "ids_in_order (snd (delete_records env now db h pid))"
    and "ids_in_order (snd (delete_feedback env now db h pid))"
    and "ids_in_order (snd (delete_projects env now db h pid))"
  using assms
  by (auto simp: delete_records_def delete_feedback_def delete_projects_def ids_in_order_def
      delete_first_distinct delete_first_bound
      split: sum.splits path_id.splits option.splits)

lemma update_keeps_ids:
  assumes "ids_in_order db"
  shows "ids_in_order (snd (put_records env now db h pid b))"
    and "ids_in_order (snd (put_projects env now db h pid b))"
proof -
  show "ids_in_order (snd (put_records env now db h pid b))"
    using assms
    by (cases "validationResult env validateRecord b")
      (auto simp: put_records_def ids_in_order_def update_first_oids update_first_bound
        split: sum.splits path_id.splits option.splits)
  show "ids_in_order (snd (put_projects env now db h pid b))"
    using assms
    by (cases "validationResult env validateProject b")
      (auto simp: put_projects_def ids_in_order_def update_first_oids update_first_bound
        split: sum.splits path_id.splits option.splits)
qed

lemma empty_database_ids: "ids_in_order empty_database"
  by (simp add: ids_in_order_def empty_database_def)

subsection \<open>Delete\<close>

lemma findById_None: "(findById i ds = None) = (i \<notin> oid ` set ds)"
  by (auto simp: findById_def find_None_iff)

lemma delete_first_removes: "distinct (map oid ds) \<Longrightarrow> i \<notin> oid ` set (delete_first i ds)"
  by (induction ds) auto

lemma delete_first_filter: "distinct (map oid ds) \<Longrightarrow> delete_first i ds = filter (\<lambda>d. oid d \<noteq> i) ds"
proof (induction ds)
  case Nil
  then show ?case by simp
next
  case (Cons d ds)
  show ?case
  proof (cases "oid d = i")
    case True
    with Cons.prems have "i \<notin> set (map oid ds)" by auto
    then have "filter (\<lambda>d. oid d \<noteq> i) ds = ds" by (induction ds) auto
    with True show ?thesis by simp
  next
    case False
    with Cons show ?thesis by simp
  qed
qed

lemma delete_records_twice:
  assumes "carries_valid_credential (JWT_SECRET env) now h"
    and "carries_valid_credential (JWT_SECRET env) now' h'"
    and "distinct (map oid (records db))"
    and "i \<in> oid ` set (records db)"
  shows "fst (delete_records env now db h (ObjectId i)) = Success 200 ()"
    and "records (snd (delete_records env now db h (ObjectId i))) = filter (\<lambda>d. oid d \<noteq> i) (records db)"
    and "fst (delete_records env now' (snd (delete_records env now db h (ObjectId i))) h' (ObjectId i))
          = Failure 404 ''Record not found'' []"
proof -
  from assms(4) obtain d where f: "findById i (records db) = Some d"
    using findById_None [of i "records db"] by (cases "findById i (records db)") auto
  from assms(1) f have r: "delete_records env now db h (ObjectId i)
      = (Success 200 (), db\<lparr>records := delete_first i (records db)\<rparr>)"
    by (simp add: delete_records_def authenticate_admitted)
  show "fst (delete_records env now db h (ObjectId i)) = Success 200 ()" by (simp add: r)
  show "records (snd (delete_records env now db h (ObjectId i))) = filter (\<lambda>d. oid d \<noteq> i) (records db)"
    by (simp add: r delete_first_filter assms(3))
  have n: "findById i (delete_first i (records db)) = None"
    using delete_first_removes [OF assms(3), of i] by (simp add: findById_None)
  show "fst (delete_records env now' (snd (delete_records env now db h (ObjectId i))) h' (ObjectId i))
          = Failure 404 ''Record not found'' []"
    unfolding r using assms(2) n by (simp add: delete_records_def authenticate_admitted)
qed

lemma delete_records_absent:
  assumes "carries_valid_credential (JWT_SECRET env) now h"
  shows "i \<notin> oid ` set (records db) \<Longrightarrow>
           delete_records env now db h (ObjectId i) = (Failure 404 ''Record not found'' [], db)"
    and "delete_records env now db h (NotObjectId s) = (Failure 500 ''Failed to delete record'' [], db)"
  using assms by (simp_all add: delete_records_def authenticate_admitted findById_None [symmetric])

lemma delete_feedback_twice:
  assumes "carries_valid_credential (JWT_SECRET env) now h"
    and "carries_valid_credential (JWT_SECRET env) now' h'"
    and "distinct (map oid (feedback db))"
    and "i \<in> oid ` set (feedback db)"
  shows "fst (delete_feedback env now db h (ObjectId i)) = Success 200 ()"
    and "feedback (snd (delete_feedback env now db h (ObjectId i))) = filter (\<lambda>d. oid d \<noteq> i) (feedback db)"
    and "fst (delete_feedback env now' (snd (delete_feedback env now db h (ObjectId i))) h' (ObjectId i))
          = Failure 404 ''Feedback not found'' []"
proof -
  from assms(4) obtain d where f: "findById i (feedback db) = Some d"
    using findById_None [of i "feedback db"] by (cases "findById i (feedback db)") auto
  from assms(1) f have r: "delete_feedback env now db h (ObjectId i)
      = (Success 200 (), db\<lparr>feedback := delete_first i (feedback db)\<rparr>)"
    by (simp add: delete_feedback_def authenticate_admitted)
  show "fst (delete_feedback env now db h (ObjectId i)) = Success 200 ()" by (simp add: r)
  show "feedback (snd (delete_feedback env now db h (ObjectId i))) = filter (\<lambda>d. oid d \<noteq> i) (feedback db)"
    by (simp add: r delete_first_filter assms(3))
  have n: "findById i (delete_first i (feedback db)) = None"
    using delete_first_removes [OF assms(3), of i] by (simp add: findById_None)
  show "fst (delete_feedback env now' (snd (delete_feedback env now db h (ObjectId i))) h' (ObjectId i))
          = Failure 404 ''Feedback not found'' []"
    unfolding r using assms(2) n by (simp add: delete_feedback_def authenticate_admitted)
qed

lemma delete_feedback_absent:
  assumes "carries_valid_credential (JWT_SECRET env) now h"
  shows "i \<notin> oid ` set (feedback db) \<Longrightarrow>
           delete_feedback env now db h (ObjectId i) = (Failure 404 ''Feedback not found'' [], db)"
    and "delete_feedback env now db h (NotObjectId s) = (Failure 500 ''Failed to delete feedback'' [], db)"
  using assms by (simp_all add: delete_feedback_def authenticate_admitted findById_None [symmetric])

lemma delete_projects_twice:
  assumes "carries_valid_credential (JWT_SECRET env) now h"
    and "carries_valid_credential (JWT_SECRET env) now' h'"
    and "distinct (map oid (projects db))"
    and "i \<in> oid ` set (projects db)"
  shows "fst (delete_projects env now db h (ObjectId i)) = Success 200 ()"
    and "projects (snd (delete_projects env now db h (ObjectId i))) = filter (\<lambda>d. oid d \<noteq> i) (projects db)"
    and "fst (delete_projects env now' (snd (delete_projects env now db h (ObjectId i))) h' (ObjectId i))
          = Failure 404 ''Project not found'' []"
proof -
  from assms(4) obtain d where f: "findById i (projects db) = Some d"
    using findById_None [of i "projects db"] by (cases "findById i (projects db)") auto
  from assms(1) f have r: "delete_projects env now db h (ObjectId i)
      = (Success 200 (), db\<lparr>projects := delete_first i (projects db)\<rparr>)"
    by (simp add: delete_projects_def authenticate_admitted)
  show "fst (delete_projects env now db h (ObjectId i)) = Success 200 ()" by (simp add: r)
  show "projects (snd (delete_projects env now db h (ObjectId i))) = filter (\<lambda>d. oid d \<noteq> i) (projects db)"
    by (simp add: r delete_first_filter assms(3))
  have n: "findById i (delete_first i (projects db)) = None"
    using delete_first_removes [OF assms(3), of i] by (simp add: findById_None)
  show "fst (delete_projects env now' (snd (delete_projects env now db h (ObjectId i))) h' (ObjectId i))
          = Failure 404 ''Project not found'' []"
    unfolding r using assms(2) n by (simp add: delete_projects_def authenticate_admitted)
qed

lemma delete_projects_absent:
  assumes "carries_valid_credential (JWT_SECRET env) now h"
  shows "i \<notin> oid ` set (projects db) \<Longrightarrow>
           delete_projects env now db h (ObjectId i) = (Failure 404 ''Project not found'' [], db)"
    and "delete_projects env now db h (NotObjectId s) = (Failure 500 ''Failed to delete project'' [], db)"
  using assms by (simp_all add: delete_projects_def authenticate_admitted findById_None [symmetric])

text \<open>
  C8 (as amended). With a valid credential on both calls and an id that is the text of an
  ObjectId: deleting a stored document answers 200 and deleting it again answers 404 (the
  \<^verbatim>\<open>_id\<close>s of a collection being distinct, as the store's index has them), and deleting an
  id that is not in the collection answers 404 and changes nothing. An id that is no
  ObjectId is answered 500: the cast throws before the collection is looked at.
\<close>

theorem delete_twice_then_not_found:
  "carries_valid_credential (JWT_SECRET env) now h \<and> carries_valid_credential (JWT_SECRET env) now' h' \<longrightarrow>
     (distinct (map oid (records db)) \<and> i1 \<in> oid ` set (records db) \<longrightarrow>
         fst (delete_records env now db h (ObjectId i1)) = Success 200 ()
         \<and> fst (delete_records env now' (snd (delete_records env now db h (ObjectId i1))) h' (ObjectId i1))
             = Failure 404 ''Record not found'' [])
     \<and> (j1 \<notin> oid ` set (records db) \<longrightarrow>
           delete_records env now db h (ObjectId j1) = (Failure 404 ''Record not found'' [], db))
     \<and> delete_records env now db h (NotObjectId s) = (Failure 500 ''Failed to delete record'' [], db)
     \<and> (distinct (map oid (feedback db)) \<and> i2 \<in> oid ` set (feedback db) \<longrightarrow>
         fst (delete_feedback env now db h (ObjectId i2)) = Success 200 ()
         \<and> fst (delete_feedback env now' (snd (delete_feedback env now db h (ObjectId i2))) h' (ObjectId i2))
             = Failure 404 ''Feedback not found'' [])
     \<and> (j2 \<notin> oid ` set (feedback db) \<longrightarrow>
           delete_feedback env now db h (ObjectId j2) = (Failure 404 ''Feedback not found'' [], db))
     \<and> delete_feedback env now db h (NotObjectId s) = (Failure 500 ''Failed to delete feedback'' [], db)
     \<and> (distinct (map oid (projects db)) \<and> i3 \<in> oid ` set (projects db) \<longrightarrow>
         fst (delete_projects env now db h (ObjectId i3)) = Success 200 ()
         \<and> fst (delete_projects env now' (snd (delete_projects env now db h (ObjectId i3))) h' (ObjectId i3))
             = Failure 404 ''Project not found'' [])
     \<and> (j3 \<notin> oid ` set (projects db) \<longrightarrow>
           delete_projects env now db h (ObjectId j3) = (Failure 404 ''Project not found'' [], db))
     \<and> delete_projects env now db h (NotObjectId s) = (Failure 500 ''Failed to delete project'' [], db)"
proof (intro impI, elim conjE)
  assume a: "carries_valid_credential (JWT_SECRET env) now h"
    and a': "carries_valid_credential (JWT_SECRET env) now' h'"
  have records_1: "distinct (map oid (records db)) \<and> i1 \<in> oid ` set (records db) \<longrightarrow>
         fst (delete_records env now db h (ObjectId i1)) = Success 200 ()
         \<and> fst (delete_records env now' (snd (delete_records env now db h (ObjectId i1))) h' (ObjectId i1))
             = Failure 404 ''Record not found'' []"
    using delete_records_twice(1) [OF a a'] delete_records_twice(3) [OF a a'] by blast
  have records_2: "j1 \<notin> oid ` set (records db) \<longrightarrow>
           delete_records env now db h (ObjectId j1) = (Failure 404 ''Record not found'' [], db)"
    using delete_records_absent(1) [OF a] by blast
  have records_3: "delete_records env now db h (NotObjectId s) = (Failure 500 ''Failed to delete record'' [], db)"
    using delete_records_absent(2) [OF a] by blast
  have feedback_1: "distinct (map oid (feedback db)) \<and> i2 \<in> oid ` set (feedback db) \<longrightarrow>
         fst (delete_feedback env now db h (ObjectId i2)) = Success 200 ()
         \<and> fst (delete_feedback env now' (snd (delete_feedback env now db h (ObjectId i2))) h' (ObjectId i2))
             = Failure 404 ''Feedback not found'' []"
    using delete_feedback_twice(1) [OF a a'] delete_feedback_twice(3) [OF a a'] by blast
  have feedback_2: "j2 \<notin> oid ` set (feedback db) \<longrightarrow>
           delete_feedback env now db h (ObjectId j2) = (Failure 404 ''Feedback not found'' [], db)"
    using delete_feedback_absent(1) [OF a] by blast
  have feedback_3: "delete_feedback env now db h (NotObjectId s) = (Failure 500 ''Failed to delete feedback'' [], db)"
    using delete_feedback_absent(2) [OF a] by blast
  have projects_1: "distinct (map oid (projects db)) \<and> i3 \<in> oid ` set (projects db) \<longrightarrow>
         fst (delete_projects env now db h (ObjectId i3)) = Success 200 ()
         \<and> fst (delete_projects env now' (snd (delete_projects env now db h (ObjectId i3))) h' (ObjectId i3))
             = Failure 404 ''Project not found'' []"
    using delete_projects_twice(1) [OF a a'] delete_projects_twice(3) [OF a a'] by blast
  have projects_2: "j3 \<notin> oid ` set (projects db) \<longrightarrow>
           delete_projects env now db h (ObjectId j3) = (Failure 404 ''Project not found'' [], db)"
    using delete_projects_absent(1) [OF a] by blast
  have projects_3: "delete_projects env now db h (NotObjectId s) = (Failure 500 ''Failed to delete project'' [], db)"
    using delete_projects_absent(2) [OF a] by blast
  from records_1 records_2 records_3 feedback_1 feedback_2 feedback_3 projects_1 projects_2 projects_3
  show "(distinct (map oid (records db)) \<and> i1 \<in> oid ` set (records db) \<longrightarrow>
         fst (delete_records env now db h (ObjectId i1)) = Success 200 ()
         \<and> fst (delete_records env now' (snd (delete_records env now db h (ObjectId i1))) h' (ObjectId i1))
             = Failure 404 ''Record not found'' [])
     \<and> (j1 \<notin> oid ` set (records db) \<longrightarrow>
           delete_records env now db h (ObjectId j1) = (Failure 404 ''Record not found'' [], db))
     \<and> delete_records env now db h (NotObjectId s) = (Failure 500 ''Failed to delete record'' [], db)
     \<and> (distinct (map oid (feedback db)) \<and> i2 \<in> oid ` set (feedback db) \<longrightarrow>
         fst (delete_feedback env now db h (ObjectId i2)) = Success 200 ()
         \<and> fst (delete_feedback env now' (snd (delete_feedback env now db h (ObjectId i2))) h' (ObjectId i2))
             = Failure 404 ''Feedback not found'' [])
     \<and> (j2 \<notin> oid ` set (feedback db) \<longrightarrow>
           delete_feedback env now db h (ObjectId j2) = (Failure 404 ''Feedback not found'' [], db))
     \<and> delete_feedback env now db h (NotObjectId s) = (Failure 500 ''Failed to delete feedback'' [], db)
     \<and> (distinct (map oid (projects db)) \<and> i3 \<in> oid ` set (projects db) \<longrightarrow>
         fst (delete_projects env now db h (ObjectId i3)) = Success 200 ()
         \<and> fst (delete_projects env now' (snd (delete_projects env now db h (ObjectId i3))) h' (ObjectId i3))
             = Failure 404 ''Project not found'' [])
     \<and> (j3 \<notin> oid ` set (projects db) \<longrightarrow>
           delete_projects env now db h (ObjectId j3) = (Failure 404 ''Project not found'' [], db))
     \<and> delete_projects env now db h (NotObjectId s) = (Failure 500 ''Failed to delete project'' [], db)"
    by (simp only: simp_thms)
qed

theorem delete_twice_then_not_found_witness:
  "carries_valid_credential (JWT_SECRET sample_env) 2000000 (bearer sample_token)
   \<and> distinct (map oid (records sample_database)) \<and> 0 \<in> oid ` set (records sample_database)
   \<and> 9 \<notin> oid ` set (records sample_database)
   \<and> distinct (map oid (feedback sample_database)) \<and> 2 \<in> oid ` set (feedback sample_database)
   \<and> distinct (map oid (projects sample_database)) \<and> 3 \<in> oid ` set (projects sample_database)
   \<and> fst (delete_records sample_env 2000000 sample_database (bearer sample_token) (ObjectId 0))
        = Success 200 ()
   \<and> fst (delete_records sample_env 2000000
        (snd (delete_records sample_env 2000000 sample_database (bearer sample_token) (ObjectId 0)))
        (bearer sample_token) (ObjectId 0)) = Failure 404 ''Record not found'' []
   \<and> delete_records sample_env 2000000 sample_database (bearer sample_token) (ObjectId 9)
        = (Failure 404 ''Record not found'' [], sample_database)
   \<and> fst (delete_feedback sample_env 2000000 sample_database (bearer sample_token) (ObjectId 2))
        = Success 200 ()
   \<and> fst (delete_projects sample_env 2000000
        (snd (delete_projects sample_env 2000000 sample_database (bearer sample_token) (ObjectId 3)))
        (bearer sample_token) (ObjectId 3)) = Failure 404 ''Project not found'' []"
proof -
  have a: "carries_valid_credential (JWT_SECRET sample_env) 2000000 (bearer sample_token)"
    by simp
  have r: "distinct (map oid (records sample_database))" "0 \<in> oid ` set (records sample_database)"
    "9 \<notin> oid ` set (records sample_database)"
    by (simp_all add: sample_database_def blank_doc_def)
  have f: "distinct (map oid (feedback sample_database))" "2 \<in> oid ` set (feedback sample_database)"
    by (simp_all add: sample_database_def blank_doc_def)
  have p: "distinct (map oid (projects sample_database))" "3 \<in> oid ` set (projects sample_database)"
    by (simp_all add: sample_database_def blank_doc_def)
  from a r f p
    delete_twice_then_not_found
      [of sample_env 2000000 "bearer sample_token" 2000000 "bearer sample_token" sample_database
          0 9 "''abc''" 2 9 3 9]
  show ?thesis by simp
qed

text \<open>
  C8 as stated fails: the id \<^verbatim>\<open>abc\<close> is in no collection, and the delete is answered 500,
  not 404.
\<close>

theorem delete_malformed_id_counterexample:
  "carries_valid_credential (JWT_SECRET sample_env) 2000000 (bearer sample_token)
   \<and> delete_records sample_env 2000000 empty_database (bearer sample_token) (NotObjectId ''abc'')
       = (Failure 500 ''Failed to delete record'' [], empty_database)"
  by (simp add: delete_records_absent)

subsection \<open>Login and verify\<close>

lemma verify_issued:
  "post_auth_verify env t (bearer (issued env now)) =
     (if t div 1000 < now div 1000 + 3600
      then Success 200 \<lparr>role = ''admin'', timestamp = now, iat = now div 1000, exp = now div 1000 + 3600\<rparr>
      else Failure 401 ''Invalid or expired token'' [])"
  by (simp add: post_auth_verify_def bearer_def authenticateToken_def issued_def jwt_sign_def
      JWT_EXPIRES_IN_def)

lemma verify_rejects:
  "status_of (post_auth_verify env t None) = 401"
  "status_of (post_auth_verify env t (bearer (Garbage s))) = 401"
  "status_of (post_auth_verify env t (bearer (Unsigned c))) = 401"
  "k \<noteq> JWT_SECRET env \<Longrightarrow> status_of (post_auth_verify env t (bearer (Signed k c))) = 401"
  by (simp_all add: post_auth_verify_def authenticate_denied)

lemma login_cases:
  "p \<noteq> [] \<Longrightarrow> bcrypt_compare env p \<Longrightarrow>
     fst (post_auth_login env now logs \<lparr>password = Some p, remote_ip = a, user_agent = u\<rparr>)
       = Success 200 \<lparr>token = issued env now, expiresAt = now + 3600000\<rparr>"
  "p \<noteq> [] \<Longrightarrow> \<not> bcrypt_compare env p \<Longrightarrow>
     fst (post_auth_login env now logs \<lparr>password = Some p, remote_ip = a, user_agent = u\<rparr>)
       = Failure 401 ''Invalid credentials'' []"
  "fst (post_auth_login env now logs \<lparr>password = Some [], remote_ip = a, user_agent = u\<rparr>)
       = Failure 400 ''Password is required'' []"
  "fst (post_auth_login env now logs \<lparr>password = None, remote_ip = a, user_agent = u\<rparr>)
       = Failure 400 ''Password is required'' []"
  by (simp_all add: post_auth_login_def issued_def)

text \<open>
  C5 (as amended). Login with the correct, non-empty secret answers 200 with a token whose
  expiry is 3600 seconds after its issue second. Verify echoes the token's claims at every
  instant whose second is before the expiry and answers 401 from the expiry on; it answers
  401 to a missing header, to a text that is no token, to an unsigned token and to a token
  signed with another key. Login with a non-empty incorrect secret answers 401 with the
  fixed message \<^verbatim>\<open>Invalid credentials\<close>; login with an empty or missing secret answers 400
  \<^verbatim>\<open>Password is required\<close>.
\<close>

theorem login_issues_one_hour_credential:
  "(p \<noteq> [] \<and> bcrypt_compare env p \<longrightarrow>
      fst (post_auth_login env now logs \<lparr>password = Some p, remote_ip = a, user_agent = u\<rparr>)
        = Success 200 \<lparr>token = issued env now, expiresAt = now + 3600000\<rparr>)
   \<and> exp (claims_in (issued env now)) = iat (claims_in (issued env now)) + 3600
   \<and> (t div 1000 < exp (claims_in (issued env now)) \<longrightarrow>
        post_auth_verify env t (bearer (issued env now)) = Success 200 (claims_in (issued env now)))
   \<and> (exp (claims_in (issued env now)) \<le> t' div 1000 \<longrightarrow>
        post_auth_verify env t' (bearer (issued env now)) = Failure 401 ''Invalid or expired token'' [])
   \<and> status_of (post_auth_verify env t None) = 401
   \<and> status_of (post_auth_verify env t (bearer (Garbage s))) = 401
   \<and> status_of (post_auth_verify env t (bearer (Unsigned c))) = 401
   \<and> (k \<noteq> JWT_SECRET env \<longrightarrow> status_of (post_auth_verify env t (bearer (Signed k c))) = 401)
   \<and> (p' \<noteq> [] \<and> \<not> bcrypt_compare env p' \<longrightarrow>
        fst (post_auth_login env now logs \<lparr>password = Some p', remote_ip = a, user_agent = u\<rparr>)
          = Failure 401 ''Invalid credentials'' [])
   \<and> fst (post_auth_login env now logs \<lparr>password = Some [], remote_ip = a, user_agent = u\<rparr>)
        = Failure 400 ''Password is required'' []
   \<and> fst (post_auth_login env now logs \<lparr>password = None, remote_ip = a, user_agent = u\<rparr>)
        = Failure 400 ''Password is required'' []"
proof -
  have c: "claims_in (issued env now)
      = \<lparr>role = ''admin'', timestamp = now, iat = now div 1000, exp = now div 1000 + 3600\<rparr>"
    by (simp add: issued_def jwt_sign_def JWT_EXPIRES_IN_def)
  show ?thesis
    by (simp add: c verify_issued verify_rejects login_cases)
qed

theorem login_issues_one_hour_credential_witness:
  "''3dprinter@aqrl'' \<noteq> [] \<and> bcrypt_compare sample_env ''3dprinter@aqrl''
   \<and> 4599999 div 1000 < exp (claims_in (issued sample_env 1000000))
   \<and> exp (claims_in (issued sample_env 1000000)) \<le> 4600000 div 1000
   \<and> ''other-key'' \<noteq> JWT_SECRET sample_env
   \<and> ''guess'' \<noteq> [] \<and> \<not> bcrypt_compare sample_env ''guess''
   \<and> fst (post_auth_login sample_env 1000000 []
        \<lparr>password = Some ''3dprinter@aqrl'', remote_ip = ''10.0.0.7'', user_agent = None\<rparr>)
       = Success 200 \<lparr>token = issued sample_env 1000000, expiresAt = 1000000 + 3600000\<rparr>
   \<and> post_auth_verify sample_env 4599999 (bearer (issued sample_env 1000000))
       = Success 200 (claims_in (issued sample_env 1000000))
   \<and> post_auth_verify sample_env 4600000 (bearer (issued sample_env 1000000))
       = Failure 401 ''Invalid or expired token'' []
   \<and> status_of (post_auth_verify sample_env 4599999 (bearer (Signed ''other-key'' sample_claims))) = 401
   \<and> fst (post_auth_login sample_env 1000000 []
        \<lparr>password = Some ''guess'', remote_ip = ''10.0.0.7'', user_agent = None\<rparr>)
       = Failure 401 ''Invalid credentials'' []"
proof -
  have p: "''3dprinter@aqrl'' \<noteq> [] \<and> bcrypt_compare sample_env ''3dprinter@aqrl''"
    and q: "''guess'' \<noteq> [] \<and> \<not> bcrypt_compare sample_env ''guess''"
    and k: "''other-key'' \<noteq> JWT_SECRET sample_env"
    by (simp_all add: sample_env_def)
  have e: "4599999 div 1000 < exp (claims_in (issued sample_env 1000000))"
    "exp (claims_in (issued sample_env 1000000)) \<le> 4600000 div 1000"
    by (simp_all add: issued_def jwt_sign_def JWT_EXPIRES_IN_def)
  from p q k e
    login_issues_one_hour_credential
      [of "''3dprinter@aqrl''" sample_env 1000000 "[]" "''10.0.0.7''" None 4599999 4600000
          "''x''" sample_claims "''other-key''" "''guess''"]
  show ?thesis by simp
qed

text \<open>
  C5 as stated fails: the empty secret is not the correct one, and login with it is answered
  400, not 401.
\<close>

theorem login_empty_secret_counterexample:
  "\<not> bcrypt_compare sample_env []
   \<and> fst (post_auth_login sample_env 1000000 []
        \<lparr>password = Some [], remote_ip = ''10.0.0.7'', user_agent = None\<rparr>)
       = Failure 400 ''Password is required'' []"
  by (simp add: login_cases sample_env_def)

subsection \<open>Settings merge\<close>

lemma fold_read:
  "fold (\<lambda>st acc. acc(skey st \<mapsto> svalue st)) sts m k =
     (if filter (\<lambda>st. skey st = k) sts = [] then m k
      else Some (svalue (last (filter (\<lambda>st. skey st = k) sts))))"
proof (induction sts rule: rev_induct)
  case Nil
  then show ?case by simp
next
  case (snoc st sts)
  show ?case
  proof (cases "skey st = k")
    case True
    then show ?thesis by simp
  next
    case False
    then show ?thesis using snoc.IH by simp
  qed
qed

lemma settings_read_filter:
  "settings_read db k =
     (if docs_for k db = [] then None else Some (svalue (last (docs_for k db))))"
  by (simp add: settings_read_def get_settings_def fold_read docs_for_def)

lemma upsert_other:
  "k' \<noteq> fst kv \<Longrightarrow> filter (\<lambda>st. skey st = k') (upsert now kv sts) = filter (\<lambda>st. skey st = k') sts"
proof (induction sts)
  case Nil
  then show ?case by (cases kv) simp
next
  case (Cons st sts)
  then show ?case by (cases kv) auto
qed

lemma fold_upsert_other:
  "k' \<notin> fst ` set kvs \<Longrightarrow>
     filter (\<lambda>st. skey st = k') (fold (upsert now) kvs sts) = filter (\<lambda>st. skey st = k') sts"
proof (induction kvs arbitrary: sts)
  case Nil
  then show ?case by simp
next
  case (Cons kv kvs)
  then show ?case by (simp add: upsert_other)
qed

lemma upsert_keys: "skey ` set (upsert now kv sts) = insert (fst kv) (skey ` set sts)"
proof (induction sts)
  case Nil
  then show ?case by (cases kv) simp
next
  case (Cons st sts)
  then show ?case by (cases kv) auto
qed

lemma upsert_distinct: "distinct (map skey sts) \<Longrightarrow> distinct (map skey (upsert now kv sts))"
proof (induction sts)
  case Nil
  then show ?case by (cases kv) simp
next
  case (Cons st sts)
  have "skey st \<noteq> fst kv \<Longrightarrow> skey st \<notin> skey ` set (upsert now kv sts)"
    using Cons.prems by (simp add: upsert_keys)
  with Cons show ?case by (cases kv) auto
qed

lemma upsert_same:
  "distinct (map skey sts) \<Longrightarrow>
     map svalue (filter (\<lambda>st. skey st = k) (upsert now (k, v) sts)) = [v]"
proof (induction sts)
  case Nil
  then show ?case by simp
next
  case (Cons st sts)
  show ?case
  proof (cases "skey st = k")
    case True
    with Cons.prems have "k \<notin> set (map skey sts)" by auto
    then have "filter (\<lambda>st. skey st = k) sts = []" by (induction sts) auto
    with True show ?thesis by simp
  next
    case False
    with Cons show ?thesis by simp
  qed
qed

lemma fold_upsert_listed:
  "distinct (map skey sts) \<Longrightarrow> distinct (map fst kvs) \<Longrightarrow> (k, v) \<in> set kvs \<Longrightarrow>
     map svalue (filter (\<lambda>st. skey st = k) (fold (upsert now) kvs sts)) = [v]"
proof (induction kvs arbitrary: sts)
  case Nil
  then show ?case by simp
next
  case (Cons kv kvs)
  show ?case
  proof (cases "kv = (k, v)")
    case True
    with Cons.prems have "k \<notin> fst ` set kvs" by auto
    then have "filter (\<lambda>st. skey st = k) (fold (upsert now) kvs (upsert now (k, v) sts))
        = filter (\<lambda>st. skey st = k) (upsert now (k, v) sts)"
      by (rule fold_upsert_other)
    with True Cons.prems show ?thesis by (simp add: upsert_same)
  next
    case False
    with Cons.prems have "(k, v) \<in> set kvs" "distinct (map fst kvs)" by auto
    with Cons.IH [of "upsert now kv sts"] Cons.prems show ?thesis
      by (simp add: upsert_distinct)
  qed
qed

lemma put_settings_admitted:
  "carries_valid_credential (JWT_SECRET env) now h \<Longrightarrow>
     put_settings env now db h (Some kvs)
       = (Success 200 (), db\<lparr>settings := fold (upsert now) kvs (settings db)\<rparr>)"
  by (simp add: put_settings_def authenticate_admitted)

text \<open>
  C7. A settings write with a valid credential answers 200. For a key that the written
  mapping does not list, the stored documents of the key are the ones stored before, and
  the value a settings read returns for it is unchanged. For a listed key (the keys of a
  JSON object and of the store being distinct), a settings read afterwards returns the
  written value.
\<close>

theorem settings_write_merges:
  "carries_valid_credential (JWT_SECRET env) now h \<longrightarrow>
     fst (put_settings env now db h (Some kvs)) = Success 200 ()
     \<and> (k \<notin> fst ` set kvs \<longrightarrow>
          docs_for k (snd (put_settings env now db h (Some kvs))) = docs_for k db
          \<and> settings_read (snd (put_settings env now db h (Some kvs))) k = settings_read db k)
     \<and> (distinct (map skey (settings db)) \<and> distinct (map fst kvs) \<and> (k', v) \<in> set kvs \<longrightarrow>
          settings_read (snd (put_settings env now db h (Some kvs))) k' = Some v)"
proof (intro impI conjI)
  assume a: "carries_valid_credential (JWT_SECRET env) now h"
  show "fst (put_settings env now db h (Some kvs)) = Success 200 ()"
    by (simp add: put_settings_admitted [OF a])
  {
    assume u: "k \<notin> fst ` set kvs"
    show d: "docs_for k (snd (put_settings env now db h (Some kvs))) = docs_for k db"
      by (simp add: put_settings_admitted [OF a] docs_for_def fold_upsert_other [OF u])
    show "settings_read (snd (put_settings env now db h (Some kvs))) k = settings_read db k"
      by (simp only: settings_read_filter d)
  }
  {
    assume l: "distinct (map skey (settings db)) \<and> distinct (map fst kvs) \<and> (k', v) \<in> set kvs"
    then have "map svalue (docs_for k' (snd (put_settings env now db h (Some kvs)))) = [v]"
      by (simp add: put_settings_admitted [OF a] docs_for_def fold_upsert_listed)
    then obtain st where "docs_for k' (snd (put_settings env now db h (Some kvs))) = [st]" "svalue st = v"
      by auto
    then show "settings_read (snd (put_settings env now db h (Some kvs))) k' = Some v"
      by (simp add: settings_read_filter)
  }
qed

theorem settings_write_merges_witness:
  "carries_valid_credential (JWT_SECRET sample_env) 2000000 (bearer sample_token)
   \<and> ''projectIdCounter'' \<notin> fst ` set [(''investment'', JNumber 700000)]
   \<and> distinct (map skey (settings sample_database))
   \<and> distinct (map fst [(''investment'', JNumber 700000)])
   \<and> (''investment'', JNumber 700000) \<in> set [(''investment'', JNumber 700000)]
   \<and> settings_read sample_database ''projectIdCounter'' = Some (JNumber 42)
   \<and> settings_read sample_database ''investment'' = Some (JNumber 600000)
   \<and> fst (put_settings sample_env 2000000 sample_database (bearer sample_token)
        (Some [(''investment'', JNumber 700000)])) = Success 200 ()
   \<and> settings_read (snd (put_settings sample_env 2000000 sample_database (bearer sample_token)
        (Some [(''investment'', JNumber 700000)]))) ''projectIdCounter'' = Some (JNumber 42)
   \<and> settings_read (snd (put_settings sample_env 2000000 sample_database (bearer sample_token)
        (Some [(''investment'', JNumber 700000)]))) ''investment'' = Some (JNumber 700000)"
proof -
  have a: "carries_valid_credential (JWT_SECRET sample_env) 2000000 (bearer sample_token)"
    by simp
  have d: "distinct (map skey (settings sample_database))"
    by (simp add: sample_database_def)
  have r: "settings_read sample_database ''projectIdCounter'' = Some (JNumber 42)"
    "settings_read sample_database ''investment'' = Some (JNumber 600000)"
    by (simp_all add: settings_read_def get_settings_def sample_database_def)
  from a d r
    settings_write_merges
      [of sample_env 2000000 "bearer sample_token" sample_database
          "[(''investment'', JNumber 700000)]" "''projectIdCounter''" "''investment''" "JNumber 700000"]
  show ?thesis by simp
qed

subsection \<open>Feedback validation\<close>

lemma sanitize_numbers [simp]: "numbers (sanitize env b p c) = numbers b"
  by (cases c) simp_all

lemma errors_Cons:
  "fst (validationResult env ((p, c) # cs) b) =
     (if chain_passes env b p c then fst (validationResult env cs (sanitize env b p c))
      else p # fst (validationResult env cs b))"
  by (simp split: prod.splits)

lemma range_chain_fails:
  "(p, IsIntRange a z) \<in> set cs \<Longrightarrow> \<not> isInt (Some a) (Some z) (numbers b p) \<Longrightarrow>
     p \<in> set (fst (validationResult env cs b))"
proof (induction cs arbitrary: b)
  case Nil
  then show ?case by simp
next
  case (Cons pc cs)
  obtain p' c where pc: "pc = (p', c)" by (cases pc)
  show ?case
  proof (cases "pc = (p, IsIntRange a z)")
    case True
    with Cons.prems show ?thesis by (simp add: errors_Cons del: validationResult.simps)
  next
    case False
    with Cons.prems have "(p, IsIntRange a z) \<in> set cs" by simp
    then have i: "p \<in> set (fst (validationResult env cs b'))" if "numbers b' = numbers b" for b'
      using Cons.IH [of b'] Cons.prems(2) that by simp
    show ?thesis
    proof (cases "chain_passes env b p' c")
      case True
      with pc i [of "sanitize env b p' c"] show ?thesis
        by (simp add: errors_Cons del: validationResult.simps)
    next
      case nf: False
      with pc i [of b] show ?thesis by (simp add: errors_Cons del: validationResult.simps)
    qed
  qed
qed

lemma failing_chain:
  "p \<in> set (fst (validationResult env cs b)) \<Longrightarrow>
     \<exists>c b'. (p, c) \<in> set cs \<and> numbers b' = numbers b \<and> \<not> chain_passes env b' p c"
proof (induction cs arbitrary: b)
  case Nil
  then show ?case by simp
next
  case (Cons pc cs)
  obtain p' c where pc: "pc = (p', c)" by (cases pc)
  show ?case
  proof (cases "chain_passes env b p' c")
    case True
    with Cons.prems pc have "p \<in> set (fst (validationResult env cs (sanitize env b p' c)))"
      by (simp add: errors_Cons del: validationResult.simps)
    from Cons.IH [OF this] show ?thesis by auto
  next
    case False
    show ?thesis
    proof (cases "p = p'")
      case True
      with False pc show ?thesis by auto
    next
      case np: False
      with False Cons.prems pc have "p \<in> set (fst (validationResult env cs b))"
        by (simp add: errors_Cons del: validationResult.simps)
      from Cons.IH [OF this] show ?thesis by auto
    qed
  qed
qed

lemma isInt_star_rating:
  "isInt (Some 1) (Some 5) f = (\<exists>n. 1 \<le> n \<and> n \<le> 5 \<and> f = Val (of_int n))"
proof (cases f)
  case (Val q)
  show ?thesis
  proof
    assume "isInt (Some 1) (Some 5) f"
    with Val have i: "of_int \<lfloor>q\<rfloor> = q" and r: "1 \<le> q" "q \<le> 5"
      by (simp_all add: prints_as_digits_def is_integer_def)
    from r have "1 \<le> \<lfloor>q\<rfloor>" "\<lfloor>q\<rfloor> \<le> 5" by (simp_all add: le_floor_iff floor_le_iff)
    with i Val show "\<exists>n. 1 \<le> n \<and> n \<le> 5 \<and> f = Val (of_int n)" by auto
  next
    assume "\<exists>n. 1 \<le> n \<and> n \<le> 5 \<and> f = Val (of_int n)"
    then obtain n :: int where n: "1 \<le> n" "n \<le> 5" "f = Val (of_int n)" by auto
    from n(1,2) have "\<bar>rat_of_int n\<bar> \<le> 5" by simp
    moreover have "(5::rat) < 10 ^ 21" by simp
    ultimately have "\<bar>rat_of_int n\<bar> < 10 ^ 21" by (rule le_less_trans)
    with n show "isInt (Some 1) (Some 5) f"
      by (simp add: prints_as_digits_def is_integer_def)
  qed
qed simp_all

lemma rating_rejected:
  assumes "\<not> isInt (Some 1) (Some 5) (numbers b ''rating'')"
  shows "''rating'' \<in> set (fst (validationResult env validateFeedback b))"
    and "post_feedback env now db h b
          = (Failure 400 ''Validation failed'' (fst (validationResult env validateFeedback b)), db)"
proof -
  show m: "''rating'' \<in> set (fst (validationResult env validateFeedback b))"
    by (rule range_chain_fails [OF _ assms]) (simp add: validateFeedback_def)
  then have "fst (validationResult env validateFeedback b) \<noteq> []" by auto
  then show "post_feedback env now db h b
          = (Failure 400 ''Validation failed'' (fst (validationResult env validateFeedback b)), db)"
    by (cases "validationResult env validateFeedback b") (simp add: post_feedback_def)
qed

lemma rating_accepted:
  assumes "isInt (Some 1) (Some 5) (numbers b ''rating'')"
  shows "''rating'' \<notin> set (fst (validationResult env validateFeedback b))"
proof
  assume "''rating'' \<in> set (fst (validationResult env validateFeedback b))"
  from failing_chain [OF this] obtain c b' where
    c: "(''rating'', c) \<in> set validateFeedback" and n: "numbers b' = numbers b"
    and f: "\<not> chain_passes env b' ''rating'' c" by blast
  from c have "c = IsIntRange 1 5" by (simp add: validateFeedback_def)
  with f n assms show False by simp
qed

text \<open>
  C9. A feedback creation whose rating is not an integer from 1 to 5 (also a missing or null
  rating) is answered 400 \<^verbatim>\<open>Validation failed\<close>, the details name the \<^verbatim>\<open>rating\<close> path and
  the database is left as it was. A rating that is an integer from 1 to 5 is not among the
  failing paths.
\<close>

theorem rating_outside_range_rejected:
  "(\<not> (\<exists>n. 1 \<le> n \<and> n \<le> 5 \<and> numbers b ''rating'' = Val (of_int n)) \<longrightarrow>
      post_feedback env now db h b
        = (Failure 400 ''Validation failed'' (fst (validationResult env validateFeedback b)), db)
      \<and> ''rating'' \<in> set (fst (validationResult env validateFeedback b)))
   \<and> ((\<exists>n. 1 \<le> n \<and> n \<le> 5 \<and> numbers b' ''rating'' = Val (of_int n)) \<longrightarrow>
        ''rating'' \<notin> set (fst (validationResult env validateFeedback b')))"
proof -
  have r: "\<not> isInt (Some 1) (Some 5) (numbers b ''rating'') \<longrightarrow>
      post_feedback env now db h b
        = (Failure 400 ''Validation failed'' (fst (validationResult env validateFeedback b)), db)
      \<and> ''rating'' \<in> set (fst (validationResult env validateFeedback b))"
    using rating_rejected by blast
  have a: "isInt (Some 1) (Some 5) (numbers b' ''rating'') \<longrightarrow>
      ''rating'' \<notin> set (fst (validationResult env validateFeedback b'))"
    using rating_accepted by blast
  from r a show ?thesis by (simp only: isInt_star_rating)
qed

theorem rating_outside_range_rejected_witness:
  "numbers sample_feedback_six ''rating'' = Val (of_int 6)
   \<and> numbers sample_feedback ''rating'' = Val (of_int 4)
   \<and> post_feedback sample_env 2000000 empty_database None sample_feedback_six
       = (Failure 400 ''Validation failed''
            (fst (validationResult sample_env validateFeedback sample_feedback_six)), empty_database)
   \<and> ''rating'' \<in> set (fst (validationResult sample_env validateFeedback sample_feedback_six))
   \<and> ''rating'' \<notin> set (fst (validationResult sample_env validateFeedback sample_feedback))"
proof -
  have six: "numbers sample_feedback_six ''rating'' = Val (of_int 6)"
    by (simp add: sample_feedback_six_def)
  have four: "numbers sample_feedback ''rating'' = Val (of_int 4)"
    by (simp add: sample_feedback_def)
  have out: "\<not> (\<exists>n. 1 \<le> n \<and> n \<le> 5 \<and> numbers sample_feedback_six ''rating'' = Val (of_int n))"
    by (simp add: sample_feedback_six_def)
  have inside: "\<exists>n. 1 \<le> n \<and> n \<le> 5 \<and> numbers sample_feedback ''rating'' = Val (of_int n)"
    using four by (intro exI [of _ 4]) simp
  from six four out inside
    rating_outside_range_rejected
      [of sample_feedback_six sample_env 2000000 empty_database None sample_feedback]
  show ?thesis by blast
qed

subsection \<open>Pagination\<close>

lemma no_query_simps [simp]:
  "q_page no_query = Missing" "q_limit no_query = Missing" "q_sortBy no_query = None"
  "q_sortOrder no_query = None" "q_status no_query = None" "q_priority no_query = None"
  by (simp_all add: no_query_def)

lemma is_integer_of_int [simp]: "is_integer (of_int n)"
  by (simp add: is_integer_def)

lemma reads_as_Missing [simp]: "reads_as 1 Missing 1" "reads_as 100 Missing 100"
  by (simp_all add: reads_as_def)

lemma reads_as_Given [simp]: "reads_as dflt (Given (Num (of_int n)) (Num (of_int n))) n"
  by (simp add: reads_as_def)

lemma matching_None [simp]: "matching p None ds = ds"
  by (simp add: matching_def truthy_def)

lemma length_matching: "length (matching p v ds) \<le> length ds"
  by (simp add: matching_def)

lemma page_of_regular:
  assumes "reads_as 1 (q_page q) p" and "reads_as 100 (q_limit q) l"
    and "1 \<le> p" and "1 \<le> l" and "p * l \<le> 2 ^ 53" and "length ds < 2 ^ 53"
  shows "page_of eng msg key dir q ds = Success 200 (expected_page p l (sort_docs eng key dir ds) ds)"
proof -
  have tp: "to_number 1 (q_page q) = Num (of_int p)" "parseInt 1 (q_page q) = Num (of_int p)"
    using assms(1) by (simp_all add: reads_as_def)
  have tl: "to_number 100 (q_limit q) = Num (of_int l)" "parseInt 100 (q_limit q) = Num (of_int l)"
    using assms(2) by (simp_all add: reads_as_def)
  have "1 * l \<le> p * l" using assms(3,4) by (intro mult_right_mono) simp_all
  with assms(5) have l53: "l \<le> 2 ^ 53" by simp
  have "p * 1 \<le> p * l" using assms(3,4) by (intro mult_left_mono) simp_all
  with assms(5) have p53: "p - 1 \<le> 2 ^ 53" by simp
  have "(p - 1) * l \<le> p * l" using assms(3,4) by (intro mult_right_mono) simp_all
  with assms(5) have s53: "(p - 1) * l \<le> 2 ^ 53" by simp
  have nn: "0 \<le> (p - 1) * l" using assms(3,4) by simp
  have nz: "nat l \<noteq> 0" using assms(4) by simp
  have "js_mul (Num (of_int l)) (Num 1) = to_double (of_int l)" by simp
  also have "\<dots> = Num (of_int l)" using assms(4) l53 by (intro to_double_of_int) simp_all
  finally have lm: "js_mul (Num (of_int l)) (Num 1) = Num (of_int l)" .
  have "js_sub (Num (of_int p)) (Num 1) = to_double (of_int (p - 1))" by simp
  also have "\<dots> = Num (of_int (p - 1))" using assms(3) p53 by (intro to_double_of_int) simp_all
  finally have sb: "js_sub (Num (of_int p)) (Num 1) = Num (of_int (p - 1))" .
  have "js_mul (Num (of_int (p - 1))) (Num (of_int l)) = to_double (of_int ((p - 1) * l))" by simp
  also have "\<dots> = Num (of_int ((p - 1) * l))" using nn s53 by (rule to_double_of_int)
  finally have sk: "js_mul (Num (of_int (p - 1))) (Num (of_int l)) = Num (of_int ((p - 1) * l))" .
  have ex: "exec_find eng key dir (Num (of_int l)) (Num (of_int ((p - 1) * l))) ds
      = Inr (take (nat l) (drop (nat ((p - 1) * l)) (sort_docs eng key dir ds)))"
    using nn nz assms(4) by (simp add: exec_find_def del: of_int_mult of_int_diff)
  have "js_div (Num (of_nat (length ds))) (Num (of_int l)) = to_double (of_nat (length ds) / of_int l)"
    using assms(4) by simp
  then have pg: "math_ceil (js_div (Num (of_nat (length ds))) (Num (of_int l)))
      = Num (of_int \<lceil>of_nat (length ds) / rat_of_int l\<rceil>)"
    using ceil_to_double_quotient [OF assms(6) assms(4) l53] by simp
  show ?thesis
    unfolding page_of_def Let_def tp tl sb sk lm ex pg expected_page_def by simp
qed

lemma page_of_unlimited:
  assumes "reads_as 1 (q_page q) p" and "1 \<le> p" and "p \<le> 2 ^ 53"
    and "to_number 100 (q_limit q) = Num 0"
  shows "page_of eng msg key dir q ds =
     Success 200
       \<lparr>data = sort_docs eng key dir ds,
        pagination = \<lparr>page = Num (of_int p), limit = parseInt 100 (q_limit q), total = length ds,
                      pages = (if ds = [] then NaN else PosInf)\<rparr>\<rparr>"
proof -
  have tp: "to_number 1 (q_page q) = Num (of_int p)" "parseInt 1 (q_page q) = Num (of_int p)"
    using assms(1) by (simp_all add: reads_as_def)
  have "js_sub (Num (of_int p)) (Num 1) = to_double (of_int (p - 1))" by simp
  also have "\<dots> = Num (of_int (p - 1))" using assms(2,3) by (intro to_double_of_int) simp_all
  finally have sb: "js_sub (Num (of_int p)) (Num 1) = Num (of_int (p - 1))" .
  have sk: "js_mul (Num (of_int (p - 1))) (Num 0) = Num 0" by simp
  have lm: "js_mul (Num 0) (Num 1) = Num 0" by simp
  have ex: "exec_find eng key dir (Num 0) (Num 0) ds = Inr (sort_docs eng key dir ds)"
    by (simp add: exec_find_def is_integer_def)
  have pg: "math_ceil (js_div (Num (of_nat (length ds))) (Num 0)) = (if ds = [] then NaN else PosInf)"
    by simp
  show ?thesis
    unfolding page_of_def Let_def tp assms(4) sb sk lm ex pg by simp
qed

text \<open>
  C3 (as amended). No list handler has a validation branch: whatever the \<^verbatim>\<open>page\<close> and
  \<^verbatim>\<open>limit\<close> parameters, a list request is answered 200 with what the store's query returned
  or 500 when the query throws, never 400. A \<^verbatim>\<open>limit\<close> that is the number 0 (the text
  \<^verbatim>\<open>0\<close>, and also the empty text) with no \<^verbatim>\<open>page\<close> is answered 200 with every record of the
  collection.
\<close>

theorem list_never_answers_validation_error:
  "(status_of (get_records eng db h q) = 200 \<or> status_of (get_records eng db h q) = 500)
   \<and> (status_of (get_feedback eng db h q) = 200 \<or> status_of (get_feedback eng db h q) = 500)
   \<and> (status_of (get_projects eng db h q) = 200 \<or> status_of (get_projects eng db h q) = 500)
   \<and> get_records eng db h (no_query\<lparr>q_limit := Given (Num 0) i\<rparr>) =
       Success 200
         \<lparr>data = sort_docs eng ''createdAt'' (- 1) (records db),
          pagination = \<lparr>page = Num 1, limit = i, total = length (records db),
                        pages = (if records db = [] then NaN else PosInf)\<rparr>\<rparr>"
proof -
  have "page_of eng ''Failed to fetch records'' ''createdAt'' (- 1)
          (no_query\<lparr>q_limit := Given (Num 0) i\<rparr>) (records db) =
       Success 200
         \<lparr>data = sort_docs eng ''createdAt'' (- 1) (records db),
          pagination = \<lparr>page = Num (of_int 1), limit = parseInt 100 (q_limit (no_query\<lparr>q_limit := Given (Num 0) i\<rparr>)),
                        total = length (records db),
                        pages = (if records db = [] then NaN else PosInf)\<rparr>\<rparr>"
    by (rule page_of_unlimited) simp_all
  then show ?thesis
    using list_handlers_status [of eng db h q] by (simp add: get_records_def)
qed

text \<open>
  C3 as stated fails: \<^verbatim>\<open>limit=0\<close> does not coerce to a positive integer, and the request is
  answered 200 with the whole collection.
\<close>

theorem list_size_zero_counterexample:
  "get_records sample_engine sample_database None (no_query\<lparr>q_limit := Given (Num 0) (Num 0)\<rparr>) =
     Success 200
       \<lparr>data = [blank_doc 0, blank_doc 1],
        pagination = \<lparr>page = Num 1, limit = Num 0, total = 2, pages = PosInf\<rparr>\<rparr>"
proof -
  have "page_of sample_engine ''Failed to fetch records'' ''createdAt'' (- 1)
          (no_query\<lparr>q_limit := Given (Num 0) (Num 0)\<rparr>) (records sample_database) =
       Success 200
         \<lparr>data = sort_docs sample_engine ''createdAt'' (- 1) (records sample_database),
          pagination = \<lparr>page = Num (of_int 1),
                        limit = parseInt 100 (q_limit (no_query\<lparr>q_limit := Given (Num 0) (Num 0)\<rparr>)),
                        total = length (records sample_database),
                        pages = (if records sample_database = [] then NaN else PosInf)\<rparr>\<rparr>"
    by (rule page_of_unlimited) simp_all
  then show ?thesis
    by (simp add: get_records_def sample_engine_def sample_database_def blank_doc_def)
qed

text \<open>
  C4 (as amended). When the \<^verbatim>\<open>page\<close> and \<^verbatim>\<open>limit\<close> parameters, with 1 and 100 for a missing
  one, are integers \<open>p \<ge> 1\<close> and \<open>l \<ge> 1\<close> in both readings, and the numbers involved are in
  the range where doubles are exact (\<open>p * l \<le> 2 ^ 53\<close>, collections of fewer than \<open>2 ^ 53\<close>
  documents), each list handler answers 200 with the slice that skips \<open>(p - 1) * l\<close>
  documents of the sorted matching documents and takes at most \<open>l\<close>, the number of matching
  documents as total and \<open>\<lceil>total / l\<rceil>\<close> as page count. Without sort parameters the sort is
  \<^verbatim>\<open>createdAt\<close> descending, and a request without parameters gets page 1 of size 100. Page
  2 of size 10 of a collection of 25 records has 10 documents and 3 pages.
\<close>

theorem list_returns_requested_slice:
  "(reads_as 1 (q_page q) p \<and> reads_as 100 (q_limit q) l \<and> 1 \<le> p \<and> 1 \<le> l
      \<and> exactly_counted p l db \<longrightarrow>
      get_records eng db h q =
        Success 200
          (expected_page p l
             (sort_docs eng (case q_sortBy q of None \<Rightarrow> ''createdAt'' | Some key \<Rightarrow> key)
                (if q_sortOrder q = None \<or> q_sortOrder q = Some ''desc'' then - 1 else 1) (records db))
             (records db))
      \<and> get_feedback eng db h q =
        Success 200
          (expected_page p l
             (sort_docs eng ''createdAt'' (- 1) (matching ''status'' (q_status q) (feedback db)))
             (matching ''status'' (q_status q) (feedback db)))
      \<and> get_projects eng db h q =
        Success 200
          (expected_page p l
             (sort_docs eng ''createdAt'' (- 1)
                (matching ''priority'' (q_priority q) (matching ''status'' (q_status q) (projects db))))
             (matching ''priority'' (q_priority q) (matching ''status'' (q_status q) (projects db)))))
   \<and> (exactly_counted 1 100 db \<longrightarrow>
        get_records eng db h no_query =
          Success 200 (expected_page 1 100 (sort_docs eng ''createdAt'' (- 1) (records db)) (records db))
        \<and> get_feedback eng db h no_query =
          Success 200 (expected_page 1 100 (sort_docs eng ''createdAt'' (- 1) (feedback db)) (feedback db))
        \<and> get_projects eng db h no_query =
          Success 200 (expected_page 1 100 (sort_docs eng ''createdAt'' (- 1) (projects db)) (projects db)))
   \<and> (length (records db) = 25 \<and> length (sort_docs eng ''createdAt'' (- 1) (records db)) = 25 \<longrightarrow>
        (case get_records eng db h
                (no_query\<lparr>q_page := Given (Num 2) (Num 2), q_limit := Given (Num 10) (Num 10)\<rparr>) of
           Success c l \<Rightarrow>
             c = 200 \<and> length (data l) = 10 \<and> total (pagination l) = 25 \<and> pages (pagination l) = Num 3
         | Failure c e ds \<Rightarrow> False))"
proof -
  have slice: "get_records eng db h q' =
        Success 200
          (expected_page p' l'
             (sort_docs eng (case q_sortBy q' of None \<Rightarrow> ''createdAt'' | Some key \<Rightarrow> key)
                (if q_sortOrder q' = None \<or> q_sortOrder q' = Some ''desc'' then - 1 else 1) (records db))
             (records db))
      \<and> get_feedback eng db h q' =
        Success 200
          (expected_page p' l'
             (sort_docs eng ''createdAt'' (- 1) (matching ''status'' (q_status q') (feedback db)))
             (matching ''status'' (q_status q') (feedback db)))
      \<and> get_projects eng db h q' =
        Success 200
          (expected_page p' l'
             (sort_docs eng ''createdAt'' (- 1)
                (matching ''priority'' (q_priority q') (matching ''status'' (q_status q') (projects db))))
             (matching ''priority'' (q_priority q') (matching ''status'' (q_status q') (projects db))))"
    if r: "reads_as 1 (q_page q') p'" "reads_as 100 (q_limit q') l'" "1 \<le> p'" "1 \<le> l'"
      and x: "exactly_counted p' l' db" for q' p' l'
  proof -
    from x have pl: "p' * l' \<le> 2 ^ 53" and n: "length (records db) < 2 ^ 53"
      "length (feedback db) < 2 ^ 53" "length (projects db) < 2 ^ 53"
      by (simp_all add: exactly_counted_def)
    have nf: "length (matching ''status'' (q_status q') (feedback db)) < 2 ^ 53"
      using length_matching [of "''status''" "q_status q'" "feedback db"] n(2) by (rule le_less_trans)
    have "length (matching ''status'' (q_status q') (projects db)) < 2 ^ 53"
      using length_matching [of "''status''" "q_status q'" "projects db"] n(3) by (rule le_less_trans)
    with length_matching [of "''priority''" "q_priority q'" "matching ''status'' (q_status q') (projects db)"]
    have np: "length (matching ''priority'' (q_priority q')
                (matching ''status'' (q_status q') (projects db))) < 2 ^ 53"
      by (rule le_less_trans)
    have dir: "(if (case q_sortOrder q' of None \<Rightarrow> ''desc'' | Some order \<Rightarrow> order) = ''desc'' then - 1 else 1)
        = (if q_sortOrder q' = None \<or> q_sortOrder q' = Some ''desc'' then - 1 else (1::int))"
      by (simp split: option.splits)
    show ?thesis
      unfolding get_records_def get_feedback_def get_projects_def dir
      using page_of_regular [OF r pl n(1)] page_of_regular [OF r pl nf] page_of_regular [OF r pl np]
      by simp
  qed
  have general: "reads_as 1 (q_page q) p \<and> reads_as 100 (q_limit q) l \<and> 1 \<le> p \<and> 1 \<le> l
      \<and> exactly_counted p l db \<longrightarrow>
      get_records eng db h q =
        Success 200
          (expected_page p l
             (sort_docs eng (case q_sortBy q of None \<Rightarrow> ''createdAt'' | Some key \<Rightarrow> key)
                (if q_sortOrder q = None \<or> q_sortOrder q = Some ''desc'' then - 1 else 1) (records db))
             (records db))
      \<and> get_feedback eng db h q =
        Success 200
          (expected_page p l
             (sort_docs eng ''createdAt'' (- 1) (matching ''status'' (q_status q) (feedback db)))
             (matching ''status'' (q_status q) (feedback db)))
      \<and> get_projects eng db h q =
        Success 200
          (expected_page p l
             (sort_docs eng ''createdAt'' (- 1)
                (matching ''priority'' (q_priority q) (matching ''status'' (q_status q) (projects db))))
             (matching ''priority'' (q_priority q) (matching ''status'' (q_status q) (projects db))))"
    using slice [of q p l] by blast
  have defaults: "exactly_counted 1 100 db \<longrightarrow>
        get_records eng db h no_query =
          Success 200 (expected_page 1 100 (sort_docs eng ''createdAt'' (- 1) (records db)) (records db))
        \<and> get_feedback eng db h no_query =
          Success 200 (expected_page 1 100 (sort_docs eng ''createdAt'' (- 1) (feedback db)) (feedback db))
        \<and> get_projects eng db h no_query =
          Success 200 (expected_page 1 100 (sort_docs eng ''createdAt'' (- 1) (projects db)) (projects db))"
  proof
    assume "exactly_counted 1 100 db"
    from slice [of no_query 1 100, OF _ _ _ _ this]
    show "get_records eng db h no_query =
          Success 200 (expected_page 1 100 (sort_docs eng ''createdAt'' (- 1) (records db)) (records db))
        \<and> get_feedback eng db h no_query =
          Success 200 (expected_page 1 100 (sort_docs eng ''createdAt'' (- 1) (feedback db)) (feedback db))
        \<and> get_projects eng db h no_query =
          Success 200 (expected_page 1 100 (sort_docs eng ''createdAt'' (- 1) (projects db)) (projects db))"
      by simp
  qed
  have example: "length (records db) = 25 \<and> length (sort_docs eng ''createdAt'' (- 1) (records db)) = 25 \<longrightarrow>
        (case get_records eng db h
                (no_query\<lparr>q_page := Given (Num 2) (Num 2), q_limit := Given (Num 10) (Num 10)\<rparr>) of
           Success c l \<Rightarrow>
             c = 200 \<and> length (data l) = 10 \<and> total (pagination l) = 25 \<and> pages (pagination l) = Num 3
         | Failure c e ds \<Rightarrow> False)"
  proof
    assume n: "length (records db) = 25 \<and> length (sort_docs eng ''createdAt'' (- 1) (records db)) = 25"
    have c: "\<lceil>(5::rat) / 2\<rceil> = 3" by (rule ceiling_unique) simp_all
    have r: "reads_as 1 (q_page (no_query\<lparr>q_page := Given (Num 2) (Num 2), q_limit := Given (Num 10) (Num 10)\<rparr>)) 2"
      "reads_as 100 (q_limit (no_query\<lparr>q_page := Given (Num 2) (Num 2), q_limit := Given (Num 10) (Num 10)\<rparr>)) 10"
      by (simp_all add: reads_as_def)
    have "page_of eng ''Failed to fetch records'' ''createdAt'' (- 1)
            (no_query\<lparr>q_page := Given (Num 2) (Num 2), q_limit := Given (Num 10) (Num 10)\<rparr>) (records db)
          = Success 200 (expected_page 2 10 (sort_docs eng ''createdAt'' (- 1) (records db)) (records db))"
      using n by (intro page_of_regular r) simp_all
    then show "case get_records eng db h
                (no_query\<lparr>q_page := Given (Num 2) (Num 2), q_limit := Given (Num 10) (Num 10)\<rparr>) of
           Success c l \<Rightarrow>
             c = 200 \<and> length (data l) = 10 \<and> total (pagination l) = 25 \<and> pages (pagination l) = Num 3
         | Failure c e ds \<Rightarrow> False"
      using n c by (simp add: get_records_def expected_page_def)
  qed
  from general defaults example show ?thesis by (simp only: simp_thms)
qed

theorem list_returns_requested_slice_witness:
  "reads_as 1 (q_page (no_query\<lparr>q_page := Given (Num 2) (Num 2), q_limit := Given (Num 10) (Num 10)\<rparr>)) 2
   \<and> reads_as 100 (q_limit (no_query\<lparr>q_page := Given (Num 2) (Num 2), q_limit := Given (Num 10) (Num 10)\<rparr>)) 10
   \<and> exactly_counted 2 10 sample_collection
   \<and> exactly_counted 1 100 sample_collection
   \<and> length (records sample_collection) = 25
   \<and> length (sort_docs sample_engine ''createdAt'' (- 1) (records sample_collection)) = 25
   \<and> (case get_records sample_engine sample_collection None
              (no_query\<lparr>q_page := Given (Num 2) (Num 2), q_limit := Given (Num 10) (Num 10)\<rparr>) of
         Success c l \<Rightarrow>
           c = 200 \<and> length (data l) = 10 \<and> total (pagination l) = 25 \<and> pages (pagination l) = Num 3
       | Failure c e ds \<Rightarrow> False)
   \<and> get_records sample_engine sample_collection None
        (no_query\<lparr>q_page := Given (Num 2) (Num 2), q_limit := Given (Num 10) (Num 10)\<rparr>)
       = Success 200
           (expected_page 2 10 (sort_docs sample_engine ''createdAt'' (- 1) (records sample_collection))
              (records sample_collection))
   \<and> get_records sample_engine sample_collection None no_query
       = Success 200
           (expected_page 1 100 (sort_docs sample_engine ''createdAt'' (- 1) (records sample_collection))
              (records sample_collection))"
proof -
  have a: "reads_as 1 (q_page (no_query\<lparr>q_page := Given (Num 2) (Num 2), q_limit := Given (Num 10) (Num 10)\<rparr>)) 2"
    "reads_as 100 (q_limit (no_query\<lparr>q_page := Given (Num 2) (Num 2), q_limit := Given (Num 10) (Num 10)\<rparr>)) 10"
    by (simp_all add: reads_as_def)
  have x: "exactly_counted 2 10 sample_collection" "exactly_counted 1 100 sample_collection"
    by (simp_all add: exactly_counted_def sample_collection_def empty_database_def)
  have n: "length (records sample_collection) = 25"
    "length (sort_docs sample_engine ''createdAt'' (- 1) (records sample_collection)) = 25"
    by (simp_all add: sample_collection_def sample_engine_def)
  have o: "(1::int) \<le> 2" "(1::int) \<le> 10" by simp_all
  note t = list_returns_requested_slice
      [of "no_query\<lparr>q_page := Given (Num 2) (Num 2), q_limit := Given (Num 10) (Num 10)\<rparr>" 2 10
          sample_collection sample_engine None]
  from n t have c: "case get_records sample_engine sample_collection None
              (no_query\<lparr>q_page := Given (Num 2) (Num 2), q_limit := Given (Num 10) (Num 10)\<rparr>) of
         Success c l \<Rightarrow>
           c = 200 \<and> length (data l) = 10 \<and> total (pagination l) = 25 \<and> pages (pagination l) = Num 3
       | Failure c e ds \<Rightarrow> False"
    by blast
  from a x(1) o t have "get_records sample_engine sample_collection None
        (no_query\<lparr>q_page := Given (Num 2) (Num 2), q_limit := Given (Num 10) (Num 10)\<rparr>)
       = Success 200
           (expected_page 2 10
              (sort_docs sample_engine
                 (case q_sortBy (no_query\<lparr>q_page := Given (Num 2) (Num 2), q_limit := Given (Num 10) (Num 10)\<rparr>) of
                    None \<Rightarrow> ''createdAt'' | Some key \<Rightarrow> key)
                 (if q_sortOrder (no_query\<lparr>q_page := Given (Num 2) (Num 2), q_limit := Given (Num 10) (Num 10)\<rparr>) = None
                     \<or> q_sortOrder (no_query\<lparr>q_page := Given (Num 2) (Num 2), q_limit := Given (Num 10) (Num 10)\<rparr>)
                        = Some ''desc''
                  then - 1 else 1)
                 (records sample_collection))
              (records sample_collection))"
    by blast
  then have g: "get_records sample_engine sample_collection None
        (no_query\<lparr>q_page := Given (Num 2) (Num 2), q_limit := Given (Num 10) (Num 10)\<rparr>)
       = Success 200
           (expected_page 2 10 (sort_docs sample_engine ''createdAt'' (- 1) (records sample_collection))
              (records sample_collection))"
    by simp
  from x(2) t have d: "get_records sample_engine sample_collection None no_query
       = Success 200
           (expected_page 1 100 (sort_docs sample_engine ''createdAt'' (- 1) (records sample_collection))
              (records sample_collection))"
    by blast
  from a x n c g d show ?thesis by (simp only: simp_thms)
qed

text \<open>
  C4 as stated fails for a page size that is no positive integer. Page 2 of size 0 of a
  collection of 25 records would skip \<open>(2 - 1) * 0\<close> records and take at most 0 of them; the
  request is answered 200 with all 25 records, and a page count that is no number of pages.
\<close>

theorem list_page_of_size_zero_counterexample:
  "get_records sample_engine sample_collection None
       (no_query\<lparr>q_page := Given (Num 2) (Num 2), q_limit := Given (Num 0) (Num 0)\<rparr>) =
     Success 200
       \<lparr>data = sort_docs sample_engine ''createdAt'' (- 1) (records sample_collection),
        pagination = \<lparr>page = Num 2, limit = Num 0, total = 25, pages = PosInf\<rparr>\<rparr>
   \<and> length (listed (get_records sample_engine sample_collection None
       (no_query\<lparr>q_page := Given (Num 2) (Num 2), q_limit := Given (Num 0) (Num 0)\<rparr>))) = 25
   \<and> data (expected_page 2 0 (sort_docs sample_engine ''createdAt'' (- 1) (records sample_collection))
        (records sample_collection)) = []"
proof -
  have "page_of sample_engine ''Failed to fetch records'' ''createdAt'' (- 1)
          (no_query\<lparr>q_page := Given (Num 2) (Num 2), q_limit := Given (Num 0) (Num 0)\<rparr>)
          (records sample_collection) =
       Success 200
         \<lparr>data = sort_docs sample_engine ''createdAt'' (- 1) (records sample_collection),
          pagination =
            \<lparr>page = Num (of_int 2),
             limit = parseInt 100
               (q_limit (no_query\<lparr>q_page := Given (Num 2) (Num 2), q_limit := Given (Num 0) (Num 0)\<rparr>)),
             total = length (records sample_collection),
             pages = (if records sample_collection = [] then NaN else PosInf)\<rparr>\<rparr>"
    by (rule page_of_unlimited) (simp_all add: reads_as_def)
  moreover have "length (records sample_collection) = 25" "records sample_collection \<noteq> []"
    "length (sort_docs sample_engine ''createdAt'' (- 1) (records sample_collection)) = 25"
    by (simp_all add: sample_collection_def sample_engine_def)
  ultimately show ?thesis
    by (simp add: get_records_def expected_page_def)
qed

subsection \<open>The totals of a job\<close>

lemmas eval_defs =
  validateRecord_def recordSchema_def Let_def trim_def is_space_def is_integer_def
  prints_as_digits_def saves_def construct_def blank_doc_def default_string_def
  default_number_def default_instant_def escape_def escape_char_def

lemma sample_job_valid:
  "validationResult sample_env validateRecord sample_job = ([], sample_job)"
  by (simp add: sample_job_def sample_env_def eval_defs fun_eq_iff)

lemma sample_job_created:
  "status_of (fst (post_records sample_env 2000000 empty_database (bearer sample_token) sample_job)) = 201"
  by (simp add: post_records_def authenticate_admitted presented_def sample_job_valid)
    (simp add: sample_job_def sample_env_def empty_database_def eval_defs)


lemma sample_job_stored:
  "(case records (snd (post_records sample_env 2000000 empty_database (bearer sample_token) sample_job)) of
      [r] \<Rightarrow> nums r ''totalQuantity'' = Some 5 \<and> counter_sum r = 1
             \<and> nums r ''totalSavings'' = Some 7 \<and> nums r ''savingsPerProduct'' = Some 10
    | _ \<Rightarrow> False)"
  by (simp add: post_records_def authenticate_admitted presented_def sample_job_valid)
    (simp add: sample_job_def sample_env_def empty_database_def eval_defs counter_sum_def
      location_counters_def)


lemma snd_validation_Cons:
  "snd (validationResult env ((p, c) # cs) b) =
     (if chain_passes env b p c then snd (validationResult env cs (sanitize env b p c))
      else snd (validationResult env cs b))"
  by (simp split: prod.splits)

lemma validation_numbers [simp]: "numbers (snd (validationResult env cs b)) = numbers b"
proof (induction cs arbitrary: b)
  case Nil
  then show ?case by simp
next
  case (Cons pc cs)
  obtain p c where pc: "pc = (p, c)" by (cases pc)
  show ?case unfolding pc snd_validation_Cons using Cons.IH by simp
qed

lemma min_chain_fails:
  "(p, IsIntMin a) \<in> set cs \<Longrightarrow> \<not> isInt (Some a) None (numbers b p) \<Longrightarrow>
     p \<in> set (fst (validationResult env cs b))"
proof (induction cs arbitrary: b)
  case Nil
  then show ?case by simp
next
  case (Cons pc cs)
  obtain p' c where pc: "pc = (p', c)" by (cases pc)
  show ?case
  proof (cases "pc = (p, IsIntMin a)")
    case True
    with Cons.prems show ?thesis by (simp add: errors_Cons del: validationResult.simps)
  next
    case False
    with Cons.prems have "(p, IsIntMin a) \<in> set cs" by simp
    then have i: "p \<in> set (fst (validationResult env cs b'))" if "numbers b' = numbers b" for b'
      using Cons.IH [of b'] Cons.prems(2) that by simp
    show ?thesis
    proof (cases "chain_passes env b p' c")
      case True
      with pc i [of "sanitize env b p' c"] show ?thesis
        by (simp add: errors_Cons del: validationResult.simps)
    next
      case nf: False
      with pc i [of b] show ?thesis by (simp add: errors_Cons del: validationResult.simps)
    qed
  qed
qed

lemma accepted_quantity:
  "fst (validationResult env validateRecord b) = [] \<Longrightarrow> isInt (Some 1) None (numbers b ''totalQuantity'')"
  using min_chain_fails [of "''totalQuantity''" 1 validateRecord b env]
  by (auto simp: validateRecord_def)

lemma construct_totals:
  "nums (construct now recordSchema b i) ''totalQuantity'' = supplied (numbers b ''totalQuantity'')"
  "nums (construct now recordSchema b i) ''totalSavings'' = supplied (numbers b ''totalSavings'')"
  by (simp_all add: construct_def recordSchema_def blank_doc_def default_number_def split: field.splits)

lemma saves_totals:
  "saves env recordSchema b r \<Longrightarrow> nums r ''totalSavings'' \<noteq> None"
  by (simp add: saves_def recordSchema_def)

lemma post_records_cases:
  "post_records env now db h b =
     (if \<not> carries_valid_credential (JWT_SECRET env) now h then (Failure 401 (denial h) [], db)
      else if fst (validationResult env validateRecord b) \<noteq> []
      then (Failure 400 ''Validation failed'' (fst (validationResult env validateRecord b)), db)
      else
        let b' = snd (validationResult env validateRecord b);
            r = (construct now recordSchema b' (next_oid db))
                  \<lparr>instants := (instants (construct now recordSchema b' (next_oid db)))
                                  (''updatedAt'' := Some now)\<rparr>
        in if saves env recordSchema b' r
           then (Success 201 r, db\<lparr>records := records db @ [r], next_oid := Suc (next_oid db)\<rparr>)
           else (Failure 500 ''Failed to create record'' [], db))"
  by (cases "validationResult env validateRecord b")
    (simp add: post_records_def authenticate_denied authenticate_admitted Let_def)

lemma create_keeps_supplied_totals:
  "(case post_records env now db h b of
      (Success c r, db') \<Rightarrow>
        c = 201 \<and> records db' = records db @ [r]
        \<and> isInt (Some 1) None (numbers b ''totalQuantity'')
        \<and> nums r ''totalQuantity'' = supplied (numbers b ''totalQuantity'')
        \<and> nums r ''totalSavings'' = supplied (numbers b ''totalSavings'')
        \<and> nums r ''totalSavings'' \<noteq> None
    | (Failure c e ds, db') \<Rightarrow> db' = db)"
  unfolding post_records_cases
  by (auto simp: Let_def construct_totals accepted_quantity dest: saves_totals)


lemma update_path_nums:
  "CHR ''.'' \<notin> set p \<Longrightarrow>
     nums (update_path S b e d) p =
       (if fst e = p \<and> fst (snd e) = KNumber
        then (case numbers b p of Val q \<Rightarrow> Some q | Null \<Rightarrow> None | Absent \<Rightarrow> nums d p)
        else nums d p)"
proof -
  assume nd: "CHR ''.'' \<notin> set p"
  obtain p' k rs where e: "e = (p', k, rs)" by (cases e)
  from nd have o: "\<not> object_replaced S b p" by (simp add: object_replaced_def)
  show ?thesis unfolding e using o by (cases k) (auto split: field.splits)
qed

lemma fold_update_nums:
  "CHR ''.'' \<notin> set p \<Longrightarrow>
     nums (fold (update_path S b) sch d) p =
       (if list_ex (\<lambda>e. fst e = p \<and> fst (snd e) = KNumber) sch
        then (case numbers b p of Val q \<Rightarrow> Some q | Null \<Rightarrow> None | Absent \<Rightarrow> nums d p)
        else nums d p)"
proof (induction sch arbitrary: d)
  case Nil
  then show ?case by simp
next
  case (Cons e sch)
  show ?case
    by (simp add: Cons.IH [OF Cons.prems] update_path_nums [OF Cons.prems] split: field.splits)
qed

lemma apply_update_nums:
  "CHR ''.'' \<notin> set p \<Longrightarrow> list_ex (\<lambda>e. fst e = p \<and> fst (snd e) = KNumber) sch \<Longrightarrow>
     nums (apply_update now sch b d) p =
       (case numbers b p of Val q \<Rightarrow> Some q | Null \<Rightarrow> None | Absent \<Rightarrow> nums d p)"
  by (simp add: apply_update_def Let_def fold_update_nums)

lemma apply_update_totals:
  "nums (apply_update now recordSchema b d) ''totalQuantity'' =
     (case numbers b ''totalQuantity'' of
        Val q \<Rightarrow> Some q | Null \<Rightarrow> None | Absent \<Rightarrow> nums d ''totalQuantity'')"
  "nums (apply_update now recordSchema b d) ''totalSavings'' =
     (case numbers b ''totalSavings'' of
        Val q \<Rightarrow> Some q | Null \<Rightarrow> None | Absent \<Rightarrow> nums d ''totalSavings'')"
  by (rule apply_update_nums; simp add: recordSchema_def)+

lemma updates_totals:
  assumes "updates env recordSchema b"
  shows "numbers b ''totalSavings'' \<noteq> Null"
proof -
  from assms have "list_all (update_path_valid env b) recordSchema"
    by (simp add: updates_def)
  moreover have "(''totalSavings'', KNumber, [Required]) \<in> set recordSchema"
    by (simp add: recordSchema_def)
  ultimately have "update_path_valid env b (''totalSavings'', KNumber, [Required])"
    unfolding list_all_iff by blast
  then show ?thesis by (cases "numbers b ''totalSavings''") simp_all
qed

lemma update_first_member:
  "findById i ds = Some d \<Longrightarrow> f d \<in> set (update_first i f ds)"
  by (induction ds) (auto simp: findById_def split: if_splits)

lemma put_records_cases:
  "put_records env now db h pid b =
     (if \<not> carries_valid_credential (JWT_SECRET env) now h then (Failure 401 (denial h) [], db)
      else if fst (validationResult env validateRecord b) \<noteq> []
      then (Failure 400 ''Validation failed'' (fst (validationResult env validateRecord b)), db)
      else
        let b' = snd (validationResult env validateRecord b)
        in case pid of
             NotObjectId s \<Rightarrow> (Failure 500 ''Failed to update record'' [], db)
           | ObjectId i \<Rightarrow>
               if \<not> updates env recordSchema b' then (Failure 500 ''Failed to update record'' [], db)
               else (case findById i (records db) of
                       None \<Rightarrow> (Failure 404 ''Record not found'' [], db)
                     | Some d \<Rightarrow>
                         (Success 200 (apply_update now recordSchema b' d),
                          db\<lparr>records := update_first i (apply_update now recordSchema b') (records db)\<rparr>)))"
  by (cases "validationResult env validateRecord b")
    (simp add: put_records_def authenticate_denied authenticate_admitted Let_def)

lemma update_keeps_supplied_totals:
  "(case put_records env now db h pid b of
      (Success c r, db') \<Rightarrow>
        c = 200 \<and> r \<in> set (records db')
        \<and> isInt (Some 1) None (numbers b ''totalQuantity'')
        \<and> nums r ''totalQuantity'' = supplied (numbers b ''totalQuantity'')
        \<and> (case numbers b ''totalSavings'' of
              Val s \<Rightarrow> nums r ''totalSavings'' = Some s
            | Null \<Rightarrow> False
            | Absent \<Rightarrow> (\<exists>i d. pid = ObjectId i \<and> findById i (records db) = Some d
                              \<and> nums r ''totalSavings'' = nums d ''totalSavings''))
    | (Failure c e ds, db') \<Rightarrow> db' = db)"
proof -
  let ?b' = "snd (validationResult env validateRecord b)"
  consider
      (denied) "\<not> carries_valid_credential (JWT_SECRET env) now h"
    | (invalid) "carries_valid_credential (JWT_SECRET env) now h"
        "fst (validationResult env validateRecord b) \<noteq> []"
    | (bad_id) s where "carries_valid_credential (JWT_SECRET env) now h"
        "fst (validationResult env validateRecord b) = []" "pid = NotObjectId s"
    | (refused) i where "carries_valid_credential (JWT_SECRET env) now h"
        "fst (validationResult env validateRecord b) = []" "pid = ObjectId i"
        "\<not> updates env recordSchema ?b'"
    | (missing) i where "carries_valid_credential (JWT_SECRET env) now h"
        "fst (validationResult env validateRecord b) = []" "pid = ObjectId i"
        "updates env recordSchema ?b'" "findById i (records db) = None"
    | (updated) i d where "carries_valid_credential (JWT_SECRET env) now h"
        "fst (validationResult env validateRecord b) = []" "pid = ObjectId i"
        "updates env recordSchema ?b'" "findById i (records db) = Some d"
    by (cases pid; cases "findById (case pid of ObjectId i \<Rightarrow> i | NotObjectId s \<Rightarrow> 0) (records db)") auto
  then show ?thesis
  proof cases
    case denied
    then show ?thesis by (simp add: put_records_cases)
  next
    case invalid
    then show ?thesis by (simp add: put_records_cases)
  next
    case bad_id
    then show ?thesis by (simp add: put_records_cases Let_def)
  next
    case refused
    then show ?thesis by (simp add: put_records_cases Let_def)
  next
    case missing
    then show ?thesis by (simp add: put_records_cases Let_def)
  next
    case updated
    then have r: "put_records env now db h pid b =
        (Success 200 (apply_update now recordSchema ?b' d),
         db\<lparr>records := update_first i (apply_update now recordSchema ?b') (records db)\<rparr>)"
      by (simp add: put_records_cases Let_def)
    from updated(2) have q: "isInt (Some 1) None (numbers b ''totalQuantity'')"
      by (rule accepted_quantity)
    then obtain qv where qv: "numbers b ''totalQuantity'' = Val qv"
      by (cases "numbers b ''totalQuantity''") simp_all
    from updates_totals [OF updated(4)] have nn: "numbers b ''totalSavings'' \<noteq> Null" by simp
    have m: "apply_update now recordSchema ?b' d
        \<in> set (update_first i (apply_update now recordSchema ?b') (records db))"
      using updated(5) by (rule update_first_member)
    have tq: "nums (apply_update now recordSchema ?b' d) ''totalQuantity'' = Some qv"
      by (simp add: apply_update_totals(1) qv)
    have ts: "case numbers b ''totalSavings'' of
              Val s \<Rightarrow> nums (apply_update now recordSchema ?b' d) ''totalSavings'' = Some s
            | Null \<Rightarrow> False
            | Absent \<Rightarrow> (\<exists>i d'. pid = ObjectId i \<and> findById i (records db) = Some d'
                  \<and> nums (apply_update now recordSchema ?b' d) ''totalSavings'' = nums d' ''totalSavings'')"
      using nn updated(3,5)
      by (cases "numbers b ''totalSavings''") (simp_all add: apply_update_totals(2))
    show ?thesis unfolding r using q qv m tq ts by simp
  qed
qed

text \<open>
  C1 (as amended). A job that create accepts is stored with the \<^verbatim>\<open>totalQuantity\<close> and the
  \<^verbatim>\<open>totalSavings\<close> of the request body: the first an integer of at least 1, as the
  validation chain asks, the second any number. A job that update accepts has the body's
  \<^verbatim>\<open>totalQuantity\<close> and the body's \<^verbatim>\<open>totalSavings\<close>, or the stored one when the body has
  none. Neither total is compared with the counters or with \<^verbatim>\<open>savingsPerProduct\<close>, and
  neither is recomputed. A request that is not accepted leaves the database as it was.
\<close>

theorem write_path_stores_supplied_totals:
  "(case post_records env now db h b of
      (Success c r, db') \<Rightarrow>
        c = 201 \<and> records db' = records db @ [r]
        \<and> isInt (Some 1) None (numbers b ''totalQuantity'')
        \<and> nums r ''totalQuantity'' = supplied (numbers b ''totalQuantity'')
        \<and> nums r ''totalSavings'' = supplied (numbers b ''totalSavings'')
        \<and> nums r ''totalSavings'' \<noteq> None
    | (Failure c e ds, db') \<Rightarrow> db' = db)
   \<and> (case put_records env now db h pid b of
      (Success c r, db') \<Rightarrow>
        c = 200 \<and> r \<in> set (records db')
        \<and> isInt (Some 1) None (numbers b ''totalQuantity'')
        \<and> nums r ''totalQuantity'' = supplied (numbers b ''totalQuantity'')
        \<and> (case numbers b ''totalSavings'' of
              Val s \<Rightarrow> nums r ''totalSavings'' = Some s
            | Null \<Rightarrow> False
            | Absent \<Rightarrow> (\<exists>i d. pid = ObjectId i \<and> findById i (records db) = Some d
                              \<and> nums r ''totalSavings'' = nums d ''totalSavings''))
    | (Failure c e ds, db') \<Rightarrow> db' = db)"
  by (rule conjI [OF create_keeps_supplied_totals update_keeps_supplied_totals])

text \<open>
  C1 as stated fails: a job with one unit at one location, a \<^verbatim>\<open>totalQuantity\<close> of 5, savings of
  10 per product and a \<^verbatim>\<open>totalSavings\<close> of 7 is accepted and stored with these totals.
\<close>

theorem client_totals_stored_counterexample:
  "status_of (fst (post_records sample_env 2000000 empty_database (bearer sample_token) sample_job)) = 201
   \<and> length (records (snd (post_records sample_env 2000000 empty_database (bearer sample_token) sample_job))) = 1
   \<and> nums (hd (records (snd (post_records sample_env 2000000 empty_database (bearer sample_token)
        sample_job)))) ''totalQuantity'' = Some 5
   \<and> counter_sum (hd (records (snd (post_records sample_env 2000000 empty_database (bearer sample_token)
        sample_job)))) = 1
   \<and> nums (hd (records (snd (post_records sample_env 2000000 empty_database (bearer sample_token)
        sample_job)))) ''totalSavings'' = Some 7
   \<and> nums (hd (records (snd (post_records sample_env 2000000 empty_database (bearer sample_token)
        sample_job)))) ''savingsPerProduct'' = Some 10"
  using sample_job_created sample_job_stored
  by (simp split: list.splits)

subsection \<open>The reconciliation sweep\<close>

lemma apiRequest_result:
  "apiRequest net (cl, calls) ep m payload =
     (case net calls (request cl ep m payload) of
        NetworkError msg \<Rightarrow> Threw msg
      | HttpResponse code err \<Rightarrow>
          if code = 401 then Returned_null
          else if \<not> (200 \<le> code \<and> code \<le> 299) then Threw (error_message code err)
          else Returned_json,
      after net calls cl (request cl ep m payload),
      calls @ [request cl ep m payload])"
  by (simp add: apiRequest_def request_def after_def Let_def split: http_result.splits)

lemma sync_records_step:
  "sync_records net (r # rs) (cl, calls) =
     (let put = update_of cl r; cl1 = after net calls cl put; post = create_of cl1 r
      in if not_found_thrown net calls put
         then if thrown net (calls @ [put]) post
              then (True, after net (calls @ [put]) cl1 post, calls @ [put, post])
              else sync_records net rs (after net (calls @ [put]) cl1 post, calls @ [put, post])
         else sync_records net rs (cl1, calls @ [put]))"
  by (simp add: apiRequest_result update_of_def create_of_def Let_def not_found_thrown_def thrown_def
      split: http_result.splits)


lemma sync_records_extends:
  "snd (snd (sync_records net rs (cl, calls))) = calls @ loop_calls net rs cl calls"
proof -
  have "\<exists>new. snd (snd (sync_records net rs (cl, calls))) = calls @ new"
  proof (induction rs arbitrary: cl calls)
    case Nil
    then show ?case by simp
  next
    case (Cons r rs)
    let ?put = "update_of cl r"
    let ?cl1 = "after net calls cl ?put"
    let ?post = "create_of ?cl1 r"
    let ?cl2 = "after net (calls @ [?put]) ?cl1 ?post"
    from Cons.IH [of ?cl1 "calls @ [?put]"] obtain n1 where
      "snd (snd (sync_records net rs (?cl1, calls @ [?put]))) = calls @ ?put # n1" by auto
    moreover from Cons.IH [of ?cl2 "calls @ [?put, ?post]"] obtain n2 where
      "snd (snd (sync_records net rs (?cl2, calls @ [?put, ?post]))) = calls @ ?put # ?post # n2" by auto
    ultimately show ?case
      unfolding sync_records_step Let_def by auto
  qed
  then show ?thesis by (auto simp: loop_calls_def)
qed

lemma loop_calls_Nil [simp]: "loop_calls net [] cl calls = []"
  by (simp add: loop_calls_def)

lemma loop_calls_Cons:
  "loop_calls net (r # rs) cl calls =
     (let put = update_of cl r; cl1 = after net calls cl put; post = create_of cl1 r
      in if not_found_thrown net calls put
         then if thrown net (calls @ [put]) post then [put, post]
              else put # post # loop_calls net rs (after net (calls @ [put]) cl1 post) (calls @ [put, post])
         else put # loop_calls net rs cl1 (calls @ [put]))"
proof -
  let ?put = "update_of cl r"
  let ?cl1 = "after net calls cl ?put"
  let ?post = "create_of ?cl1 r"
  let ?cl2 = "after net (calls @ [?put]) ?cl1 ?post"
  have a: "drop (length calls) (snd (snd (sync_records net rs (?cl1, calls @ [?put]))))
      = ?put # loop_calls net rs ?cl1 (calls @ [?put])"
    by (simp add: sync_records_extends)
  have b: "drop (length calls) (snd (snd (sync_records net rs (?cl2, calls @ [?put, ?post]))))
      = ?put # ?post # loop_calls net rs ?cl2 (calls @ [?put, ?post])"
    by (simp add: sync_records_extends)
  show ?thesis
    unfolding loop_calls_def [of net "r # rs"] sync_records_step Let_def
    using a b by simp
qed

lemma pushes_record_Cons: "pushes_record rs call \<Longrightarrow> pushes_record (r # rs) call"
  by (simp add: pushes_record_def)

lemma loop_pushes_records_only: "list_all (pushes_record rs) (loop_calls net rs cl calls)"
proof (induction rs arbitrary: cl calls)
  case Nil
  then show ?case by simp
next
  case (Cons r rs)
  have w: "list_all (pushes_record (r # rs)) (loop_calls net rs cl' calls')" for cl' calls'
    using Cons.IH [of cl' calls'] by (simp add: list_all_iff pushes_record_Cons)
  have p: "pushes_record (r # rs) (update_of cl' r)" "pushes_record (r # rs) (create_of cl' r)" for cl'
    by (simp_all add: pushes_record_def update_of_def create_of_def request_def)
  show ?case
    unfolding loop_calls_Cons Let_def by (simp add: w p)
qed

lemma loop_creates_follow_not_found:
  "creates_follow_not_found net calls (loop_calls net rs cl calls)"
proof (induction rs arbitrary: cl calls)
  case Nil
  then show ?case by simp
next
  case (Cons r rs)
  have m: "http_method (update_of cl' r) = ''PUT''" "http_method (create_of cl' r) = ''POST''"
    "sent (update_of cl' r) = Some r" "sent (create_of cl' r) = Some r" for cl'
    by (simp_all add: update_of_def create_of_def request_def)
  show ?case
    unfolding loop_calls_Cons Let_def
    using Cons.IH by (simp add: m)
qed


lemma after_simps [simp]:
  "isOnline (after net calls cl call) = isOnline cl"
  "storage (after net calls cl call) = storage cl"
  by (simp_all add: after_def split: http_result.splits)

lemma loop_without_failed_create:
  assumes nc: "\<And>calls call. http_method call = ''POST'' \<Longrightarrow> \<not> thrown net calls call"
  shows "fst (sync_records net rs (cl, calls)) = False
     \<and> isOnline (fst (snd (sync_records net rs (cl, calls)))) = isOnline cl
     \<and> map sent (filter (\<lambda>c. http_method c = ''PUT'') (loop_calls net rs cl calls)) = map Some rs"
proof (induction rs arbitrary: cl calls)
  case Nil
  then show ?case by simp
next
  case (Cons r rs)
  have m: "http_method (update_of cl' r) = ''PUT''" "http_method (create_of cl' r) = ''POST''"
    "sent (update_of cl' r) = Some r" for cl'
    by (simp_all add: update_of_def create_of_def request_def)
  have np: "\<not> thrown net calls' (create_of cl' r)" for calls' cl'
    by (rule nc) (simp add: m)
  show ?case
    unfolding loop_calls_Cons sync_records_step Let_def
    using Cons.IH by (simp add: m np)
qed

lemma syncWithServer_result:
  "syncWithServer net (cl, calls) =
     (let probe = request cl ''/health'' ''GET'' None; cl1 = after net calls cl probe
      in if thrown net calls probe then (cl1\<lparr>isOnline := False\<rparr>, calls @ [probe])
         else (case storage cl of
                 None \<Rightarrow> (cl1\<lparr>isOnline := True\<rparr>, calls @ [probe])
               | Some localData \<Rightarrow>
                   (case sync_records net (c_records localData) (cl1\<lparr>isOnline := True\<rparr>, calls @ [probe]) of
                      (threw, cl', calls') \<Rightarrow>
                        (if threw then cl'\<lparr>isOnline := False\<rparr> else cl', calls'))))"
  by (simp add: syncWithServer_def apiRequest_result thrown_def Let_def split: http_result.splits)

lemma sweep_without_failed_create:
  assumes probe: "\<not> thrown net calls (request cl ''/health'' ''GET'' None)"
    and nc: "\<And>calls call. http_method call = ''POST'' \<Longrightarrow> \<not> thrown net calls call"
    and cache: "storage cl = Some localData"
  shows "isOnline (fst (syncWithServer net (cl, calls)))"
    and "map sent (filter (\<lambda>c. http_method c = ''PUT'')
            (drop (Suc (length calls)) (snd (syncWithServer net (cl, calls)))))
         = map Some (c_records localData)"
proof -
  let ?probe = "request cl ''/health'' ''GET'' None"
  let ?cl1 = "(after net calls cl ?probe)\<lparr>isOnline := True\<rparr>"
  let ?loop = "sync_records net (c_records localData) (?cl1, calls @ [?probe])"
  obtain t cl' calls' where l: "?loop = (t, cl', calls')" by (cases ?loop) auto
  from loop_without_failed_create [OF nc, of "c_records localData" ?cl1 "calls @ [?probe]"] l
  have t: "t = False" and o: "isOnline cl'"
    and u: "map sent (filter (\<lambda>c. http_method c = ''PUT'')
              (loop_calls net (c_records localData) ?cl1 (calls @ [?probe])))
            = map Some (c_records localData)"
    by simp_all
  from sync_records_extends [of net "c_records localData" ?cl1 "calls @ [?probe]"] l
  have c: "calls' = calls @ ?probe # loop_calls net (c_records localData) ?cl1 (calls @ [?probe])"
    by simp
  from probe cache l t have r: "syncWithServer net (cl, calls) = (cl', calls')"
    by (simp add: syncWithServer_result Let_def)
  show "isOnline (fst (syncWithServer net (cl, calls)))" by (simp add: r o)
  show "map sent (filter (\<lambda>c. http_method c = ''PUT'')
            (drop (Suc (length calls)) (snd (syncWithServer net (cl, calls)))))
         = map Some (c_records localData)"
    by (simp add: r c u)
qed

lemma sweep_pushes_records_only:
  "storage cl = Some localData \<Longrightarrow>
     list_all (pushes_record (c_records localData))
       (drop (Suc (length calls)) (snd (syncWithServer net (cl, calls))))"
proof -
  assume cache: "storage cl = Some localData"
  let ?probe = "request cl ''/health'' ''GET'' None"
  let ?cl1 = "(after net calls cl ?probe)\<lparr>isOnline := True\<rparr>"
  let ?loop = "sync_records net (c_records localData) (?cl1, calls @ [?probe])"
  obtain t cl' calls' where l: "?loop = (t, cl', calls')" by (cases ?loop) auto
  from sync_records_extends [of net "c_records localData" ?cl1 "calls @ [?probe]"] l
  have c: "calls' = calls @ ?probe # loop_calls net (c_records localData) ?cl1 (calls @ [?probe])"
    by simp
  show ?thesis
    using cache l c loop_pushes_records_only [of "c_records localData" net ?cl1 "calls @ [?probe]"]
    by (simp add: syncWithServer_result Let_def)
qed

text \<open>
  C2. After a successful probe the sweep sets the connectivity flag and walks the cached
  records, update first and create only after a not-found update; when no create throws it
  reaches every record and leaves the flag set (the lemmas above). At this input it does
  not: the cache holds two records, every update is answered 404 \<^verbatim>\<open>Record not found\<close> and
  every create 500. The create of the first record throws out of the loop, the second record
  is never attempted, and the flag is false when the sweep ends.
\<close>

theorem sweep_stops_after_failed_create:
  "syncWithServer sample_network (sample_client, []) =
     (sample_client\<lparr>isOnline := False\<rparr>,
      [\<lparr>endpoint = ''/health'', http_method = ''GET'', sent = None, bearer_token = Some sample_token\<rparr>,
       \<lparr>endpoint = ''/records/665f1c2e9b3a4d0012ab34cd'', http_method = ''PUT'', sent = Some widget_a,
        bearer_token = Some sample_token\<rparr>,
       \<lparr>endpoint = ''/records'', http_method = ''POST'', sent = Some widget_a,
        bearer_token = Some sample_token\<rparr>])"
  by (simp add: syncWithServer_def apiRequest_def sample_network_def sample_client_def Let_def
      error_message_def widget_a_def widget_b_def)

end
